theory Spec2Isabelle
  imports Main "HOL-Library.Sublist" "HOL-Library.List_Lexorder"
begin

section \<open>MedCare hospital records panel: a model of \<open>recomand.py\<close>\<close>

text \<open>
  The program is one Streamlit script. Every user interaction runs the script from top to
  bottom: it reads the widgets, talks to the SQLite file \<open>hospital.db\<close> through
  \<open>run_query\<close>, and draws the page. The model follows that shape:
  \<^item> Python strings are lists of Unicode code points;
  \<^item> the SQLite file is a record of three tables, each a list of rows in rowid order;
  \<^item> the statements the script issues are a datatype, each constructor carrying the
    parameter tuple bound to its \<open>?\<close> placeholders;
  \<^item> the values the widgets return in one run are a record of inputs;
  \<^item> one run of the script is a function from the inputs and the world before the run
    to the way the run ended and the world after it.

  What the model takes for granted:
  \<^item> the values of the buttons, boxes and radios of one run are inputs, in any
    combination; the one widget the script creates under a button, the confirmation
    checkbox, returns what Streamlit gives a widget that is new on the page;
  \<^item> SQLite evaluates \<open>LIKE\<close> as its documentation says and scans a table in rowid
    order; rowids are unbounded naturals; \<open>sqlite3\<close> binds a Python \<open>int\<close> as an
    \<open>INTEGER\<close> and a \<open>numpy.int64\<close> as a \<open>BLOB\<close>;
  \<^item> opening the file, locking it and writing it do not fail: the only errors of a
    statement are the ones its constraints raise.
\<close>

subsection \<open>Python strings\<close>

type_synonym pystr = "nat list"

definition str :: "string \<Rightarrow> pystr" where
  "str s = map of_char s"

text \<open>
  \<open>str.isspace\<close> of one code point: the characters \<open>str.strip()\<close> removes when it
  is called without an argument.
\<close>

definition py_isspace :: "nat \<Rightarrow> bool" where
  "py_isspace c \<longleftrightarrow>
     (9 \<le> c \<and> c \<le> 13) \<or> (28 \<le> c \<and> c \<le> 32) \<or> c = 133 \<or> c = 160 \<or> c = 5760 \<or>
     (8192 \<le> c \<and> c \<le> 8202) \<or> c = 8232 \<or> c = 8233 \<or> c = 8239 \<or> c = 8287 \<or> c = 12288"

definition strip :: "pystr \<Rightarrow> pystr" where
  "strip s = rev (dropWhile py_isspace (rev (dropWhile py_isspace s)))"

subsection \<open>The SQLite \<open>LIKE\<close> operator\<close>

text \<open>
  \<open>LIKE\<close> without an \<open>ESCAPE\<close> clause, as SQLite evaluates it: \<open>%\<close> in the pattern
  matches any run of characters, \<open>_\<close> matches exactly one character, and any other
  character matches itself or its other case, where only the ASCII letters have a case.
\<close>

definition percent :: nat where "percent = 37"
definition underscore :: nat where "underscore = 95"

definition ascii_lower :: "nat \<Rightarrow> nat" where
  "ascii_lower c = (if 65 \<le> c \<and> c \<le> 90 then c + 32 else c)"

fun like :: "pystr \<Rightarrow> pystr \<Rightarrow> bool" where
  "like [] [] = True"
| "like [] (c # cs) = False"
| "like (p # ps) [] = (p = percent \<and> like ps [])"
| "like (p # ps) (c # cs) =
     (if p = percent then like ps (c # cs) \<or> like (p # ps) cs
      else (p = underscore \<or> ascii_lower p = ascii_lower c) \<and> like ps cs)"

text \<open>The pattern the script builds from the search box: \<open>f"%{search}%"\<close>.\<close>

definition like_pattern :: "pystr \<Rightarrow> pystr" where
  "like_pattern search = percent # search @ [percent]"

text \<open>
  What the specification asks of a search: the text occurs in the field as a contiguous
  substring, letter case of ASCII letters ignored.
\<close>

definition contains_ci :: "pystr \<Rightarrow> pystr \<Rightarrow> bool" where
  "contains_ci needle hay \<longleftrightarrow> sublist (map ascii_lower needle) (map ascii_lower hay)"

definition wildcard_free :: "pystr \<Rightarrow> bool" where
  "wildcard_free s \<longleftrightarrow> percent \<notin> set s \<and> underscore \<notin> set s"

subsection \<open>The store: \<open>hospital.db\<close>\<close>

text \<open>
  The three tables of \<open>init_db\<close>. A column declared without \<open>NOT NULL\<close> holds an
  optional text, \<open>None\<close> being SQL \<open>NULL\<close>. The \<open>id\<close> columns are rowids.
\<close>

record patient =
  patient_id :: nat
  first_name :: pystr
  last_name :: pystr
  phone :: "pystr option"
  gender :: "pystr option"
  dob :: "pystr option"
  blood_type :: "pystr option"
  created_at :: "pystr option"

record doctor =
  doctor_id :: nat
  doctor_name :: pystr
  specialty :: pystr
  doctor_phone :: "pystr option"
  doctor_department :: "pystr option"

record staff_member =
  staff_id :: nat
  staff_name :: pystr
  role :: pystr
  staff_phone :: "pystr option"
  staff_department :: "pystr option"
  status :: "pystr option"

text \<open>
  \<open>patients_seq\<close> is the entry of \<open>sqlite_sequence\<close> that \<open>AUTOINCREMENT\<close> keeps for
  the patients table: the largest rowid the table has ever held.
\<close>

record db =
  patients :: "patient list"
  patients_seq :: nat
  doctors :: "doctor list"
  staff :: "staff_member list"

definition empty_db :: db where
  "empty_db = \<lparr>patients = [], patients_seq = 0, doctors = [], staff = []\<rparr>"

text \<open>
  What is bound to the \<open>?\<close> of an id. \<open>sqlite3\<close> binds a Python \<open>int\<close> as an
  \<open>INTEGER\<close>. The id the script reads out of a data frame (\<open>.iloc[0]\<close> of the
  \<open>id\<close> column) is a \<open>numpy.int64\<close>: it is no \<open>int\<close>, the script registers no
  adapter for it, and \<open>sqlite3\<close> takes it through its buffer and binds a \<open>BLOB\<close> of
  its eight bytes, low byte first.
\<close>

datatype pyvalue = PyInt nat | NumpyInt64 nat

datatype sqlvalue = SqlInteger nat | SqlBlob "nat list"

definition int64_bytes :: "nat \<Rightarrow> nat list" where
  "int64_bytes n = map (\<lambda>k. n div 256 ^ k mod 256) [0..<8]"

fun bind_param :: "pyvalue \<Rightarrow> sqlvalue" where
  "bind_param (PyInt n) = SqlInteger n"
| "bind_param (NumpyInt64 n) = SqlBlob (int64_bytes n)"

text \<open>
  The statements the script sends to SQLite, each with the tuple bound to its placeholders:
  \<^item> \<open>SELECT COUNT(*) cnt FROM patients\<close> (and doctors, staff);
  \<^item> \<open>SELECT * FROM patients\<close>, alone or with
    \<open>WHERE first_name LIKE ? OR last_name LIKE ? OR phone LIKE ?\<close>;
  \<^item> \<open>INSERT INTO patients (first_name, last_name, phone, gender, blood_type) VALUES (?,?,?,?,?)\<close>;
  \<^item> \<open>SELECT id, first_name || ' ' || last_name || ' (' || phone || ')' label FROM patients\<close>;
  \<^item> \<open>SELECT * FROM patients WHERE id = ?\<close>;
  \<^item> \<open>UPDATE patients SET first_name=?, last_name=?, phone=?, gender=?, blood_type=? WHERE id=?\<close>;
  \<^item> \<open>DELETE FROM patients WHERE id = ?\<close>;
  \<^item> \<open>SELECT * FROM doctors ORDER BY name\<close> (and staff).
\<close>

datatype query =
    CountPatients
  | CountDoctors
  | CountStaff
  | SelectPatients
  | SelectPatientsLike pystr pystr pystr
  | InsertPatient pystr pystr pystr pystr pystr
  | SelectPatientLabels
  | SelectPatientById pyvalue
  | UpdatePatient pystr pystr "pystr option" pystr pystr pyvalue
  | DeletePatient pyvalue
  | SelectDoctorsByName
  | SelectStaffByName

text \<open>What \<open>pd.read_sql_query\<close> hands back: the rows of the result, in order.\<close>

datatype dataframe =
    CountFrame nat
  | PatientFrame "patient list"
  | LabelFrame "(nat \<times> pystr option) list"
  | DoctorFrame "doctor list"
  | StaffFrame "staff_member list"

text \<open>Python exceptions, with the text \<open>str(e)\<close> gives.\<close>

datatype exn =
    IntegrityError pystr
  | TypeError pystr
  | ValueError pystr
  | IndexError pystr
  | KeyError pystr

fun message :: "exn \<Rightarrow> pystr" where
  "message (IntegrityError m) = m"
| "message (TypeError m) = m"
| "message (ValueError m) = m"
| "message (IndexError m) = m"
| "message (KeyError m) = m"

definition unique_phone_failed :: exn where
  "unique_phone_failed = IntegrityError (str ''UNIQUE constraint failed: patients.phone'')"

text \<open>\<open>x LIKE pattern\<close> on a nullable column: \<open>NULL\<close> is never selected.\<close>

definition like_col :: "pystr \<Rightarrow> pystr option \<Rightarrow> bool" where
  "like_col pat v = (case v of None \<Rightarrow> False | Some t \<Rightarrow> like pat t)"

text \<open>
  The \<open>label\<close> column of the selection query. \<open>||\<close> yields \<open>NULL\<close> as soon as one
  operand is \<open>NULL\<close>, and only \<open>phone\<close> can be.
\<close>

definition label :: "patient \<Rightarrow> pystr option" where
  "label r = (case phone r of
       None \<Rightarrow> None
     | Some p \<Rightarrow> Some (first_name r @ str '' '' @ last_name r @ str '' ('' @ p @ str '')''))"

text \<open>
  The rowid \<open>AUTOINCREMENT\<close> gives the next row: one more than the largest rowid the
  table holds or has ever held.
\<close>

definition next_rowid :: "db \<Rightarrow> nat" where
  "next_rowid d = Suc (fold max (map patient_id (patients d)) (patients_seq d))"

definition phone_taken :: "pystr \<Rightarrow> patient list \<Rightarrow> bool" where
  "phone_taken p rows \<longleftrightarrow> (\<exists>r \<in> set rows. phone r = Some p)"

definition set_fields ::
  "pystr \<Rightarrow> pystr \<Rightarrow> pystr option \<Rightarrow> pystr \<Rightarrow> pystr \<Rightarrow> patient \<Rightarrow> patient" where
  "set_fields f l p g b r =
     r\<lparr>first_name := f, last_name := l, phone := p, gender := Some g, blood_type := Some b\<rparr>"

text \<open>
  \<open>id = ?\<close> on a row, \<open>id\<close> being an \<open>INTEGER\<close> column: the bound integer equals
  the id that is the same number, and a bound \<open>BLOB\<close> equals no id.
\<close>

fun id_is :: "sqlvalue \<Rightarrow> patient \<Rightarrow> bool" where
  "id_is (SqlInteger i) r = (patient_id r = i)"
| "id_is (SqlBlob b) r = False"

text \<open>
  One statement on the store, at clock reading \<open>ts\<close> (the text of
  \<open>CURRENT_TIMESTAMP\<close>). The result is the exception SQLite raises, or the rows of the
  cursor (\<open>None\<close> for a statement that returns none) with the store as the statement
  leaves it inside the open transaction.
\<close>

fun sqlite_exec :: "pystr \<Rightarrow> query \<Rightarrow> db \<Rightarrow> exn + (dataframe option \<times> db)" where
  "sqlite_exec ts CountPatients d = Inr (Some (CountFrame (length (patients d))), d)"
| "sqlite_exec ts CountDoctors d = Inr (Some (CountFrame (length (doctors d))), d)"
| "sqlite_exec ts CountStaff d = Inr (Some (CountFrame (length (staff d))), d)"
| "sqlite_exec ts SelectPatients d = Inr (Some (PatientFrame (patients d)), d)"
| "sqlite_exec ts (SelectPatientsLike p1 p2 p3) d =
     Inr (Some (PatientFrame (filter
       (\<lambda>r. like p1 (first_name r) \<or> like p2 (last_name r) \<or> like_col p3 (phone r))
       (patients d))), d)"
| "sqlite_exec ts (InsertPatient f l p g b) d =
     (if phone_taken p (patients d) then Inl unique_phone_failed
      else Inr (None, d\<lparr>patients := patients d @
             [\<lparr>patient_id = next_rowid d, first_name = f, last_name = l, phone = Some p,
               gender = Some g, dob = None, blood_type = Some b, created_at = Some ts\<rparr>],
             patients_seq := next_rowid d\<rparr>))"
| "sqlite_exec ts SelectPatientLabels d =
     Inr (Some (LabelFrame (map (\<lambda>r. (patient_id r, label r)) (patients d))), d)"
| "sqlite_exec ts (SelectPatientById v) d =
     Inr (Some (PatientFrame (filter (id_is (bind_param v)) (patients d))), d)"
| "sqlite_exec ts (UpdatePatient f l p g b v) d =
     (if (\<exists>r \<in> set (patients d). id_is (bind_param v) r) \<and>
         (\<exists>r \<in> set (patients d). \<not> id_is (bind_param v) r \<and> p \<noteq> None \<and> phone r = p)
      then Inl unique_phone_failed
      else Inr (None, d\<lparr>patients :=
             map (\<lambda>r. if id_is (bind_param v) r then set_fields f l p g b r else r)
               (patients d)\<rparr>))"
| "sqlite_exec ts (DeletePatient v) d =
     Inr (None, d\<lparr>patients := filter (\<lambda>r. \<not> id_is (bind_param v) r) (patients d)\<rparr>)"
| "sqlite_exec ts SelectDoctorsByName d = Inr (Some (DoctorFrame (sort_key doctor_name (doctors d))), d)"
| "sqlite_exec ts SelectStaffByName d = Inr (Some (StaffFrame (sort_key staff_name (staff d))), d)"

text \<open>
  What the schema guarantees of the patients table: \<open>id\<close> is a primary key and
  \<open>phone\<close> is \<open>UNIQUE\<close>, where \<open>NULL\<close>s do not count as equal.
\<close>

definition db_ok :: "db \<Rightarrow> bool" where
  "db_ok d \<longleftrightarrow>
     distinct (map patient_id (patients d)) \<and>
     distinct (filter (\<lambda>p. p \<noteq> None) (map phone (patients d)))"

subsection \<open>The page, the session and the widgets\<close>

text \<open>
  What a run draws, in order. Only the elements that carry data are recorded: titles,
  the four kinds of message, tables and metrics. Rules, captions and the column layout
  are left out.
\<close>

datatype ui =
    Title pystr
  | Subheader pystr
  | Success pystr
  | Error pystr
  | Info pystr
  | Warning pystr
  | Metric pystr nat
  | Dataframe dataframe

text \<open>
  The world a run works on: \<open>st.session_state\<close> (\<open>None\<close> while the key
  \<open>logged_in\<close> is not set), the SQLite file, the clock, the number of open connections,
  the statements sent to SQLite by \<open>run_query\<close> in this run, and the page drawn so far.
\<close>

record world =
  session :: "bool option"
  store :: db
  now :: pystr
  connections :: nat
  journal :: "query list"
  screen :: "ui list"

text \<open>
  The values the widgets return in one run. A text box of the add form or the search box
  returns what was typed; a text box of the edit form returns \<open>None\<close> while the user
  has not touched it, and then shows its \<open>value=\<close>; a radio or a select box returns
  \<open>None\<close> while untouched, and then stands at its \<open>index=\<close>; a button is \<open>True\<close> in
  the run its click starts; \<open>confirm_checkbox\<close> is what the user ticks on the
  confirmation checkbox, if anything.
\<close>

record inputs =
  nav_radio :: "nat option"
  logout_button :: bool
  username_input :: pystr
  password_input :: pystr
  login_button :: bool
  search_input :: pystr
  action_radio :: "nat option"
  first_name_input :: pystr
  last_name_input :: pystr
  phone_input :: pystr
  gender_select :: "nat option"
  blood_select :: "nat option"
  create_button :: bool
  patient_select :: "nat option"
  edit_first_name :: "pystr option"
  edit_last_name :: "pystr option"
  edit_phone :: "pystr option"
  edit_gender :: "nat option"
  edit_blood :: "nat option"
  update_button :: bool
  delete_button :: bool
  confirm_checkbox :: bool

datatype halt = Rerun | Stop | Raised exn

definition render :: "ui \<Rightarrow> world \<Rightarrow> world" where
  "render e w = w\<lparr>screen := screen w @ [e]\<rparr>"

text \<open>
  \<open>st.selectbox(label, options, index)\<close> and \<open>st.radio\<close>: the option the user
  picked, the option at \<open>index\<close> otherwise. The script calls them on options that are
  not empty, with index 0 or a position \<open>list.index\<close> has found.
\<close>

definition selectbox :: "'a list \<Rightarrow> nat \<Rightarrow> nat option \<Rightarrow> 'a" where
  "selectbox options index pick =
     options ! (case pick of None \<Rightarrow> index | Some i \<Rightarrow> if i < length options then i else index)"

definition text_input :: "'a \<Rightarrow> 'a option \<Rightarrow> 'a" where
  "text_input val typed = (case typed of None \<Rightarrow> val | Some s \<Rightarrow> s)"

text \<open>A text box whose \<open>value=\<close> is \<open>None\<close> returns \<open>None\<close> until the user types.\<close>

definition text_input_opt :: "'a option \<Rightarrow> 'a option \<Rightarrow> 'a option" where
  "text_input_opt val typed = (case typed of None \<Rightarrow> val | Some s \<Rightarrow> Some s)"

text \<open>\<open>list.index\<close>: the first position of the value, \<open>ValueError\<close> when there is none.\<close>

fun list_index :: "pystr list \<Rightarrow> pystr \<Rightarrow> exn + nat" where
  "list_index [] v = Inl (ValueError ([39] @ v @ [39] @ str '' is not in list''))"
| "list_index (x # xs) v = (if x = v then Inr 0 else map_sum id Suc (list_index xs v))"

subsection \<open>Database helpers\<close>

definition get_db :: "world \<Rightarrow> world" where
  "get_db w = w\<lparr>connections := Suc (connections w)\<rparr>"

definition close :: "world \<Rightarrow> world" where
  "close w = w\<lparr>connections := connections w - 1\<rparr>"

text \<open>
  \<open>init_db\<close> runs \<open>CREATE TABLE IF NOT EXISTS\<close> for the three tables on a connection
  of its own. The store of the model always holds the three tables (a new file is
  \<open>empty_db\<close>), so the statements leave it as it is.
\<close>

definition init_db :: "world \<Rightarrow> world" where
  "init_db w = close (get_db w)"

definition st_error :: "exn \<Rightarrow> world \<Rightarrow> world" where
  "st_error e w = render (Error (str ''Database error: '' @ message e)) w"

definition not_iterable :: exn where
  "not_iterable = TypeError ([39] @ str ''NoneType'' @ [39] @ str '' object is not iterable'')"

text \<open>
  \<open>run_query(sql, params, fetch_df, commit)\<close>. The connection is opened before the
  \<open>try\<close> and closed in its \<open>finally\<close>; closing without a commit drops what the
  statement did. With \<open>fetch_df\<close>, pandas runs the statement and reads the rows of the
  cursor, and fails on a statement that has none.
\<close>

definition run_query :: "query \<Rightarrow> bool \<Rightarrow> bool \<Rightarrow> world \<Rightarrow> dataframe option \<times> world" where
  "run_query sql fetch_df commit w =
     (let conn = get_db (w\<lparr>journal := journal w @ [sql]\<rparr>) in
      if fetch_df then
        (case sqlite_exec (now conn) sql (store conn) of
           Inl e \<Rightarrow> (None, close (st_error e conn))
         | Inr (None, d) \<Rightarrow> (None, close (st_error not_iterable conn))
         | Inr (Some df, d) \<Rightarrow> (Some df, close conn))
      else
        (case sqlite_exec (now conn) sql (store conn) of
           Inl e \<Rightarrow> (None, close (st_error e conn))
         | Inr (rows, d) \<Rightarrow> (None, close (if commit then conn\<lparr>store := d\<rparr> else conn))))"

subsection \<open>Login state, sidebar and login screen\<close>

definition init_session :: "world \<Rightarrow> world" where
  "init_session w = (case session w of None \<Rightarrow> w\<lparr>session := Some False\<rparr> | Some b \<Rightarrow> w)"

definition logged_in :: "world \<Rightarrow> bool" where
  "logged_in w \<longleftrightarrow> session w = Some True"

definition main_modules :: "pystr list" where
  "main_modules =
     [str ''Dashboard'',
      str ''Patients (full CRUD)'',
      str ''Doctors (full CRUD)'',
      str ''Staff (full CRUD)'',
      str ''Appointments'',
      str ''Lab & Investigations'',
      str ''Pharmacy Inventory'',
      str ''Departments'',
      str ''Reports'']"

definition sidebar :: "inputs \<Rightarrow> world \<Rightarrow> (halt + pystr) \<times> world" where
  "sidebar inp w =
     (if logged_in w then
        (let page = selectbox main_modules 0 (nav_radio inp) in
         if logout_button inp then (Inl Rerun, w\<lparr>session := Some False\<rparr>)
         else (Inr page, w))
      else (Inr (str ''Login''), w))"

definition login_screen :: "inputs \<Rightarrow> world \<Rightarrow> (halt + unit) \<times> world" where
  "login_screen inp w =
     (if \<not> logged_in w then
        (let w1 = render (Subheader (str ''Login (Demo Mode)''))
                    (render (Title (str ''MedCare Hospital Management'')) w);
             username = username_input inp;
             password = password_input inp in
         if login_button inp then
           (if strip username = str ''admin'' \<and> password = str ''admin123'' then
              (Inl Rerun, render (Success (str ''Login successful!'')) (w1\<lparr>session := Some True\<rparr>))
            else
              (Inl Stop, render (Info (str ''Use: admin / admin123''))
                           (render (Error (str ''Invalid credentials'')) w1)))
         else (Inl Stop, w1))
      else (Inr (), w))"

subsection \<open>Dashboard\<close>

text \<open>\<open>df['cnt'][0]\<close> on what \<open>run_query\<close> returned.\<close>

definition not_subscriptable :: exn where
  "not_subscriptable = TypeError ([39] @ str ''NoneType'' @ [39] @ str '' object is not subscriptable'')"

fun cnt :: "dataframe option \<Rightarrow> exn + nat" where
  "cnt None = Inl not_subscriptable"
| "cnt (Some (CountFrame n)) = Inr n"
| "cnt (Some f) = Inl (KeyError (str ''cnt''))"

definition dashboard :: "world \<Rightarrow> (halt + unit) \<times> world" where
  "dashboard w =
     (let (df1, w1) = run_query CountPatients True False w in
      case cnt df1 of Inl e \<Rightarrow> (Inl (Raised e), w1) | Inr p \<Rightarrow>
     (let (df2, w2) = run_query CountDoctors True False w1 in
      case cnt df2 of Inl e \<Rightarrow> (Inl (Raised e), w2) | Inr d \<Rightarrow>
     (let (df3, w3) = run_query CountStaff True False w2 in
      case cnt df3 of Inl e \<Rightarrow> (Inl (Raised e), w3) | Inr s \<Rightarrow>
        (Inr (), render (Metric (str ''Staff'') s)
                   (render (Metric (str ''Doctors'') d)
                     (render (Metric (str ''Patients'') p) w3))))))"

subsection \<open>Patients: list and search\<close>

text \<open>\<open>df.empty\<close>.\<close>

fun empty_frame :: "dataframe \<Rightarrow> bool" where
  "empty_frame (CountFrame n) = False"
| "empty_frame (PatientFrame rows) = (rows = [])"
| "empty_frame (LabelFrame rows) = (rows = [])"
| "empty_frame (DoctorFrame rows) = (rows = [])"
| "empty_frame (StaffFrame rows) = (rows = [])"

text \<open>The statement and the tuple the search box leads to (\<open>q\<close> and \<open>p\<close>).\<close>

definition list_query :: "pystr \<Rightarrow> query" where
  "list_query search =
     (if search \<noteq> [] then
        SelectPatientsLike (like_pattern search) (like_pattern search) (like_pattern search)
      else SelectPatients)"

definition patients_list_tab :: "inputs \<Rightarrow> world \<Rightarrow> world" where
  "patients_list_tab inp w =
     (let search = search_input inp;
          (df, w1) = run_query (list_query search) True False w in
      case df of
        None \<Rightarrow> render (Info (if search \<noteq> [] then str ''No patients found''
                               else str ''No patients yet'')) w1
      | Some f \<Rightarrow>
          if \<not> empty_frame f then render (Dataframe f) w1
          else render (Info (if search \<noteq> [] then str ''No patients found''
                             else str ''No patients yet'')) w1)"

subsection \<open>Patients: add, edit, delete\<close>

definition gender_options :: "pystr list" where
  "gender_options = [[], str ''Male'', str ''Female'', str ''Other'']"

definition blood_options :: "pystr list" where
  "blood_options = [[], str ''A+'', str ''A-'', str ''B+'', str ''B-'',
                    str ''O+'', str ''O-'', str ''AB+'', str ''AB-'']"

text \<open>The body of \<open>if st.button("Create Patient")\<close>.\<close>

definition create_patient ::
  "pystr \<Rightarrow> pystr \<Rightarrow> pystr \<Rightarrow> pystr \<Rightarrow> pystr \<Rightarrow> world \<Rightarrow> (halt + unit) \<times> world" where
  "create_patient fn ln ph g blood w =
     (if fn \<noteq> [] \<and> ln \<noteq> [] \<and> ph \<noteq> [] then
        (let (r, w1) = run_query (InsertPatient fn ln ph g blood) False True w in
         (Inl Rerun, render (Success (str ''Patient created!'')) w1))
      else (Inr (), render (Warning (str ''Required fields missing'')) w))"

definition add_new :: "inputs \<Rightarrow> world \<Rightarrow> (halt + unit) \<times> world" where
  "add_new inp w =
     (let fn = first_name_input inp;
          ln = last_name_input inp;
          ph = phone_input inp;
          g = selectbox gender_options 0 (gender_select inp);
          blood = selectbox blood_options 0 (blood_select inp) in
      if create_button inp then create_patient fn ln ph g blood w else (Inr (), w))"

text \<open>
  \<open>patients[patients['label'] == choice]['id'].iloc[0]\<close>: the id of the first row whose
  label is the chosen one, as the \<open>numpy.int64\<close> the column holds it in. A \<open>NULL\<close>
  label equals nothing, and \<open>iloc[0]\<close> of an empty selection raises.
\<close>

definition out_of_bounds :: exn where
  "out_of_bounds = IndexError (str ''single positional indexer is out-of-bounds'')"

definition find_pid :: "(nat \<times> pystr option) list \<Rightarrow> pystr option \<Rightarrow> exn + pyvalue" where
  "find_pid rows choice =
     (case filter (\<lambda>(i, l). choice \<noteq> None \<and> l = choice) rows of
        [] \<Rightarrow> Inl out_of_bounds
      | (i, l) # rest \<Rightarrow> Inr (NumpyInt64 i))"

definition edit_gender_options :: "pystr list" where
  "edit_gender_options = [str ''Male'', str ''Female'', str ''Other'']"

definition edit_blood_options :: "pystr list" where
  "edit_blood_options = [str ''A+'', str ''A-'', str ''B+'', str ''B-'',
                         str ''O+'', str ''O-'', str ''AB+'', str ''AB-'']"

text \<open>
  The \<open>index=\<close> of the two select boxes of the edit form:
  \<open>0 if pd.isna(p['gender']) else ["Male","Female","Other"].index(p['gender'])\<close> for the
  gender, the literal \<open>0\<close> for the blood group.
\<close>

definition gender_index :: "patient \<Rightarrow> exn + nat" where
  "gender_index p = (case gender p of None \<Rightarrow> Inr 0 | Some v \<Rightarrow> list_index edit_gender_options v)"

definition blood_index :: "patient \<Rightarrow> nat" where
  "blood_index p = 0"

text \<open>The bodies of \<open>if st.button("Update Patient")\<close> and \<open>if st.button("Delete Patient")\<close>.\<close>

definition update_patient ::
  "pystr \<Rightarrow> pystr \<Rightarrow> pystr option \<Rightarrow> pystr \<Rightarrow> pystr \<Rightarrow> pyvalue \<Rightarrow> world \<Rightarrow> (halt + unit) \<times> world" where
  "update_patient e_fn e_ln e_ph e_gender e_blood pid w =
     (let (r, w1) = run_query (UpdatePatient e_fn e_ln e_ph e_gender e_blood pid) False True w in
      (Inl Rerun, render (Success (str ''Updated!'')) w1))"

definition delete_patient :: "bool \<Rightarrow> pyvalue \<Rightarrow> world \<Rightarrow> (halt + unit) \<times> world" where
  "delete_patient confirm pid w =
     (if confirm then
        (let (r, w1) = run_query (DeletePatient pid) False True w in
         (Inl Rerun, render (Success (str ''Deleted!'')) w1))
      else (Inr (), w))"

text \<open>
  \<open>st.checkbox\<close> called in the branch of \<open>if st.button(...)\<close>. The button is \<open>True\<close>
  in the run its click starts and in no other. The checkbox is drawn in that run only: it
  is not on the page before the click, and a tick on it afterwards starts the next run,
  in which the button is \<open>False\<close>, the checkbox is not drawn and its state is dropped.
  So in the branch it returns its default, whatever the user ticks.
\<close>

definition checkbox_under_button :: "bool \<Rightarrow> bool" where
  "checkbox_under_button ticked = False"

text \<open>The form drawn for the loaded row \<open>p = data.iloc[0]\<close>, and its two buttons.\<close>

definition edit_form :: "inputs \<Rightarrow> pyvalue \<Rightarrow> patient \<Rightarrow> world \<Rightarrow> (halt + unit) \<times> world" where
  "edit_form inp pid p w =
     (let e_fn = text_input (first_name p) (edit_first_name inp);
          e_ln = text_input (last_name p) (edit_last_name inp);
          e_ph = text_input_opt (phone p) (edit_phone inp) in
      case gender_index p of
        Inl e \<Rightarrow> (Inl (Raised e), w)
      | Inr gi \<Rightarrow>
         (let e_gender = selectbox edit_gender_options gi (edit_gender inp);
              e_blood = selectbox edit_blood_options (blood_index p) (edit_blood inp) in
          if update_button inp then update_patient e_fn e_ln e_ph e_gender e_blood pid w
          else if delete_button inp then
            delete_patient (checkbox_under_button (confirm_checkbox inp)) pid w
          else (Inr (), w)))"

text \<open>
  \<open>data.iloc[0]\<close> when \<open>data is not None and not data.empty\<close>; the statement
  behind \<open>data\<close> selects from patients, so a frame is a patient frame.
\<close>

fun loaded_row :: "dataframe option \<Rightarrow> patient option" where
  "loaded_row (Some (PatientFrame (p # rest))) = Some p"
| "loaded_row df = None"

text \<open>
  The rows of the selection frame, none when \<open>patients is None or patients.empty\<close>;
  the statement behind \<open>patients\<close> selects ids and labels.
\<close>

fun selectable :: "dataframe option \<Rightarrow> (nat \<times> pystr option) list" where
  "selectable (Some (LabelFrame rows)) = rows"
| "selectable df = []"

definition edit_delete :: "inputs \<Rightarrow> world \<Rightarrow> (halt + unit) \<times> world" where
  "edit_delete inp w =
     (let (patients_df, w1) = run_query SelectPatientLabels True False w in
      if selectable patients_df = [] then (Inr (), render (Info (str ''No patients yet'')) w1)
      else
        (let choice = selectbox (map snd (selectable patients_df)) 0 (patient_select inp) in
         case find_pid (selectable patients_df) choice of
           Inl e \<Rightarrow> (Inl (Raised e), w1)
         | Inr pid \<Rightarrow>
            (let (data, w2) = run_query (SelectPatientById pid) True False w1 in
             case loaded_row data of
               None \<Rightarrow> (Inr (), w2)
             | Some p \<Rightarrow> edit_form inp pid p w2)))"

definition action_options :: "pystr list" where
  "action_options = [str ''Add New'', str ''Edit / Delete'']"

definition patients_manage_tab :: "inputs \<Rightarrow> world \<Rightarrow> (halt + unit) \<times> world" where
  "patients_manage_tab inp w =
     (let mode = selectbox action_options 0 (action_radio inp) in
      if mode = str ''Add New'' then add_new inp w else edit_delete inp w)"

definition patients_page :: "inputs \<Rightarrow> world \<Rightarrow> (halt + unit) \<times> world" where
  "patients_page inp w = patients_manage_tab inp (patients_list_tab inp w)"

subsection \<open>Doctors and staff, placeholders, and the whole script\<close>

text \<open>The two labels the Doctors and Staff branch compares the page with.\<close>

definition doctors_label :: pystr where
  "doctors_label = [128104, 8205, 9877, 65039] @ str '' Doctors (full CRUD)''"

definition staff_label :: pystr where
  "staff_label = [128105, 8205, 9877, 65039] @ str '' Staff (full CRUD)''"

text \<open>\<open>f"SELECT * FROM {table} ORDER BY name"\<close>.\<close>

definition select_by_name :: "pystr \<Rightarrow> query" where
  "select_by_name table = (if table = str ''doctors'' then SelectDoctorsByName else SelectStaffByName)"

definition crud_ready :: "pystr \<Rightarrow> pystr" where
  "crud_ready table =
     [10] @ str ''        Full CRUD pattern is ready.'' @ [10] @
     str ''        Copy the **Patients** management code and:'' @ [10] @
     str ''        1. Change table name to '' @ [39] @ table @ [39] @ [10] @
     str ''        2. Adjust fields accordingly'' @ [10] @
     str ''        ''"

definition doctors_staff_page :: "pystr \<Rightarrow> world \<Rightarrow> (halt + unit) \<times> world" where
  "doctors_staff_page page w =
     (let table = (if sublist (str ''Doctors'') page then str ''doctors'' else str ''staff'');
          title = (if sublist (str ''Doctors'') page then str ''Doctor'' else str ''Staff Member'');
          w1 = render (Subheader (title @ str '' Management '' @ [8211] @ str '' Full CRUD'')) w;
          (df, w2) = run_query (select_by_name table) True False w1;
          w3 = (case df of None \<Rightarrow> w2 | Some f \<Rightarrow> render (Dataframe f) w2) in
      (Inr (), render (Info (crud_ready table)) w3))"

definition prepared :: pystr where
  "prepared =
     [10] @ str ''    This module is prepared for implementation.'' @ [10, 10] @
     str ''    Recommended next steps:'' @ [10] @
     str ''    1. Create corresponding table in init_database()'' @ [10] @
     str ''    2. Copy the full CRUD pattern from Patients module'' @ [10] @
     str ''    3. Adjust fields and table name'' @ [10] @
     str ''    ''"

definition placeholder :: "pystr \<Rightarrow> world \<Rightarrow> (halt + unit) \<times> world" where
  "placeholder page w =
     (Inr (), render (Info prepared) (render (Success (str ''Module: '' @ page)) w))"

text \<open>The \<open>if\<close>/\<open>elif\<close> chain of the main area: which branch a page runs.\<close>

datatype branch = Dashboard | Patients | DoctorsStaff | Remaining

definition dispatch :: "pystr \<Rightarrow> branch" where
  "dispatch page =
     (if page = str ''Dashboard'' then Dashboard
      else if page = str ''Patients (full CRUD)'' then Patients
      else if page \<in> set [doctors_label, staff_label] then DoctorsStaff
      else Remaining)"

definition main_area :: "inputs \<Rightarrow> pystr \<Rightarrow> world \<Rightarrow> (halt + unit) \<times> world" where
  "main_area inp page w =
     (let w1 = render (Title (str ''MedCare Hospital '' @ [8594] @ str '' '' @ page)) w in
      case dispatch page of
        Dashboard \<Rightarrow> dashboard w1
      | Patients \<Rightarrow> patients_page inp w1
      | DoctorsStaff \<Rightarrow> doctors_staff_page page w1
      | Remaining \<Rightarrow> placeholder page w1)"

text \<open>
  One run of the script, on a page and a journal that start empty. \<open>st.rerun()\<close> and
  \<open>st.stop()\<close> end the run where they are called, and so does an exception nothing
  catches.
\<close>

definition app :: "inputs \<Rightarrow> world \<Rightarrow> (halt + unit) \<times> world" where
  "app inp w =
     (let w1 = init_session (init_db (w\<lparr>journal := [], screen := []\<rparr>)) in
      case sidebar inp w1 of
        (Inl h, w2) \<Rightarrow> (Inl h, w2)
      | (Inr page, w2) \<Rightarrow>
          (case login_screen inp w2 of
             (Inl h, w3) \<Rightarrow> (Inl h, w3)
           | (Inr u, w3) \<Rightarrow> main_area inp page w3))"

subsection \<open>Notions used in the statements and proofs\<close>

text \<open>
  The world \<open>run_query\<close> leaves behind when the statement raised \<open>e\<close>: the statement is
  in the journal, the message of \<open>st.error\<close> is on the page, and the store, the session
  and the number of open connections are what they were.
\<close>

definition failed :: "exn \<Rightarrow> query \<Rightarrow> world \<Rightarrow> world" where
  "failed e sql w =
     w\<lparr>journal := journal w @ [sql],
       screen := screen w @ [Error (str ''Database error: '' @ message e)]\<rparr>"

text \<open>The phones of a table that are not \<open>NULL\<close>, in row order.\<close>

definition phones :: "patient list \<Rightarrow> pystr option list" where
  "phones rows = filter (\<lambda>p. p \<noteq> None) (map phone rows)"

text \<open>The \<open>Action\<close> radio stands at \<open>Add New\<close>.\<close>

definition add_mode :: "inputs \<Rightarrow> bool" where
  "add_mode inp \<longleftrightarrow> selectbox action_options 0 (action_radio inp) = str ''Add New''"

text \<open>
  The calls of \<open>run_query\<close> a run with given inputs can make from the main area, with
  their two flags: the reads of the patients table with \<open>fetch_df\<close>, and the insert
  with \<open>commit\<close> under the conditions its button sits behind. No run reaches the
  update, the delete, or the listing of doctors or staff.
\<close>

fun issues :: "inputs \<Rightarrow> query \<Rightarrow> bool \<Rightarrow> bool \<Rightarrow> bool" where
  "issues inp (InsertPatient f l p g b) fetch_df commit \<longleftrightarrow>
     \<not> fetch_df \<and> commit \<and> add_mode inp \<and> create_button inp \<and>
     f = first_name_input inp \<and> l = last_name_input inp \<and> p = phone_input inp \<and>
     f \<noteq> [] \<and> l \<noteq> [] \<and> p \<noteq> []"
| "issues inp (UpdatePatient f l p g b v) fetch_df commit \<longleftrightarrow> False"
| "issues inp (DeletePatient v) fetch_df commit \<longleftrightarrow> False"
| "issues inp SelectDoctorsByName fetch_df commit \<longleftrightarrow> False"
| "issues inp SelectStaffByName fetch_df commit \<longleftrightarrow> False"
| "issues inp q fetch_df commit \<longleftrightarrow> fetch_df \<and> \<not> commit"

text \<open>
  A relation between worlds that every step of the main area respects: it is reflexive
  and transitive, drawing respects it, and so does every call of \<open>run_query\<close> the run
  can make.
\<close>

definition frame :: "inputs \<Rightarrow> (world \<Rightarrow> world \<Rightarrow> bool) \<Rightarrow> bool" where
  "frame inp R \<longleftrightarrow>
     (\<forall>w. R w w) \<and>
     (\<forall>a b c. R a b \<longrightarrow> R b c \<longrightarrow> R a c) \<and>
     (\<forall>e w. R w (render e w)) \<and>
     (\<forall>q f c w. issues inp q f c \<longrightarrow> R w (snd (run_query q f c w)))"

text \<open>The rows of the patients table that hold a given phone.\<close>

definition with_phone :: "pystr \<Rightarrow> db \<Rightarrow> patient list" where
  "with_phone p d = filter (\<lambda>r. phone r = Some p) (patients d)"

text \<open>
  What the specification asks of a search, for one row: the text occurs in the first
  name, the last name or the phone.
\<close>

definition matches :: "pystr \<Rightarrow> patient \<Rightarrow> bool" where
  "matches search r \<longleftrightarrow>
     contains_ci search (first_name r) \<or> contains_ci search (last_name r) \<or>
     (case phone r of None \<Rightarrow> False | Some p \<Rightarrow> contains_ci search p)"

subsection \<open>A small hospital to run the script on\<close>

definition ada :: patient where
  "ada = \<lparr>patient_id = 1, first_name = str ''Ada'', last_name = str ''Byron'',
           phone = Some (str ''555''), gender = Some (str ''Female''), dob = None,
           blood_type = Some (str ''O+''), created_at = Some (str ''2026-01-01 09:00:00'')\<rparr>"

definition house :: doctor where
  "house = \<lparr>doctor_id = 1, doctor_name = str ''House'', specialty = str ''Diagnostics'',
             doctor_phone = None, doctor_department = Some (str ''Cardiology'')\<rparr>"

definition ward :: db where
  "ward = \<lparr>patients = [ada], patients_seq = 1, doctors = [house], staff = []\<rparr>"

text \<open>A session that is logged in, and one that has just started.\<close>

definition desk :: world where
  "desk = \<lparr>session = Some True, store = ward, now = str ''2026-01-02 10:00:00'',
            connections = 0, journal = [], screen = []\<rparr>"

definition fresh :: world where
  "fresh = \<lparr>session = None, store = ward, now = str ''2026-01-02 10:00:00'',
             connections = 0, journal = [], screen = []\<rparr>"

text \<open>No widget touched, no button clicked.\<close>

definition idle :: inputs where
  "idle = \<lparr>nav_radio = None, logout_button = False, username_input = [], password_input = [],
            login_button = False, search_input = [], action_radio = None,
            first_name_input = [], last_name_input = [], phone_input = [],
            gender_select = None, blood_select = None, create_button = False,
            patient_select = None, edit_first_name = None, edit_last_name = None,
            edit_phone = None, edit_gender = None, edit_blood = None,
            update_button = False, delete_button = False, confirm_checkbox = False\<rparr>"

section \<open>Properties\<close>

subsection \<open>\<open>LIKE\<close> and substrings\<close>

lemma like_plain:
  "wildcard_free s \<Longrightarrow> like s t \<longleftrightarrow> map ascii_lower s = map ascii_lower t"
  by (induction s t rule: like.induct) (auto simp: wildcard_free_def)

lemma like_tail_percent:
  "wildcard_free s \<Longrightarrow>
   like (s @ [percent]) t \<longleftrightarrow> prefix (map ascii_lower s) (map ascii_lower t)"
proof (induction s arbitrary: t)
  case Nil
  show ?case by (induction t) auto
next
  case (Cons a s)
  then show ?case by (cases t) (auto simp: wildcard_free_def)
qed

lemma like_head_percent: "like (percent # q) t \<longleftrightarrow> (\<exists>v. suffix v t \<and> like q v)"
proof (induction t)
  case Nil
  then show ?case by (cases q) auto
next
  case (Cons c cs)
  then show ?case by (auto simp: suffix_Cons)
qed

lemma like_pattern_contains:
  assumes "wildcard_free s"
  shows "like (like_pattern s) t \<longleftrightarrow> contains_ci s t"
proof -
  have "like (like_pattern s) t \<longleftrightarrow>
        (\<exists>v. suffix v t \<and> prefix (map ascii_lower s) (map ascii_lower v))"
    unfolding like_pattern_def like_head_percent using like_tail_percent[OF assms] by simp
  also have "\<dots> \<longleftrightarrow> contains_ci s t"
  proof
    assume "\<exists>v. suffix v t \<and> prefix (map ascii_lower s) (map ascii_lower v)"
    then obtain v where v: "suffix v t" "prefix (map ascii_lower s) (map ascii_lower v)"
      by blast
    from v(1) have "suffix (map ascii_lower v) (map ascii_lower t)" by (rule map_mono_suffix)
    with v(2) show "contains_ci s t" unfolding contains_ci_def sublist_altdef' by blast
  next
    assume "contains_ci s t"
    then obtain w where w: "suffix w (map ascii_lower t)" "prefix (map ascii_lower s) w"
      unfolding contains_ci_def sublist_altdef' by blast
    from w(1) obtain u where "map ascii_lower t = u @ w" by (auto simp: suffix_def)
    then obtain t1 t2 where "t = t1 @ t2" "w = map ascii_lower t2"
      by (auto simp: map_eq_append_conv)
    with w(2) show "\<exists>v. suffix v t \<and> prefix (map ascii_lower s) (map ascii_lower v)"
      by (auto simp: suffix_def)
  qed
  finally show ?thesis .
qed

subsection \<open>\<open>run_query\<close>, case by case\<close>

lemma run_query_fetch:
  "run_query sql True c w =
     (case sqlite_exec (now w) sql (store w) of
        Inl e \<Rightarrow> (None, failed e sql w)
      | Inr (None, d) \<Rightarrow> (None, failed not_iterable sql w)
      | Inr (Some df, d) \<Rightarrow> (Some df, w\<lparr>journal := journal w @ [sql]\<rparr>))"
  by (simp add: run_query_def get_db_def close_def st_error_def render_def failed_def
      split: sum.splits option.splits prod.splits)

lemma run_query_exec:
  "run_query sql False c w =
     (case sqlite_exec (now w) sql (store w) of
        Inl e \<Rightarrow> (None, failed e sql w)
      | Inr (rows, d) \<Rightarrow>
          (None, if c then w\<lparr>journal := journal w @ [sql], store := d\<rparr>
                 else w\<lparr>journal := journal w @ [sql]\<rparr>))"
  by (simp add: run_query_def get_db_def close_def st_error_def render_def failed_def
      split: sum.splits option.splits prod.splits)

lemma run_query_connections: "connections (snd (run_query sql f c w)) = connections w"
  by (cases f)
     (simp_all add: run_query_fetch run_query_exec failed_def
        split: sum.splits option.splits prod.splits)

lemma run_query_session: "session (snd (run_query sql f c w)) = session w"
  by (cases f)
     (simp_all add: run_query_fetch run_query_exec failed_def
        split: sum.splits option.splits prod.splits)

lemma run_query_journal: "journal (snd (run_query sql f c w)) = journal w @ [sql]"
  by (cases f)
     (simp_all add: run_query_fetch run_query_exec failed_def
        split: sum.splits option.splits prod.splits)

lemma run_query_read_store: "store (snd (run_query sql True c w)) = store w"
  by (simp add: run_query_fetch failed_def split: sum.splits option.splits prod.splits)

subsection \<open>The schema's guarantees are kept by every statement\<close>

lemma fold_max_ge_init: "(a::nat) \<le> fold max xs a"
  by (induction xs arbitrary: a) (auto intro: order_trans[OF max.cobounded2])

lemma fold_max_ge_elem: "(x::nat) \<in> set xs \<Longrightarrow> x \<le> fold max xs a"
  by (induction xs arbitrary: a) (auto intro: order_trans[OF max.cobounded1 fold_max_ge_init])

lemma next_rowid_fresh: "r \<in> set (patients d) \<Longrightarrow> patient_id r < next_rowid d"
  unfolding next_rowid_def by (simp add: fold_max_ge_elem less_Suc_eq_le)

lemma next_rowid_not_used: "next_rowid d \<notin> patient_id ` set (patients d)"
  using next_rowid_fresh by fastforce

lemma phones_Cons:
  "phones (r # rows) = (if phone r = None then phones rows else phone r # phones rows)"
  by (simp add: phones_def)

lemma phones_append: "phones (xs @ ys) = phones xs @ phones ys"
  by (simp add: phones_def)

lemma set_phones: "set (phones rows) = {p. p \<noteq> None \<and> p \<in> phone ` set rows}"
  by (auto simp: phones_def)

lemma db_ok_phones:
  "db_ok d \<longleftrightarrow> distinct (map patient_id (patients d)) \<and> distinct (phones (patients d))"
  by (simp add: db_ok_def phones_def)

lemma update_other_rows:
  "i \<notin> patient_id ` set rows \<Longrightarrow> map (\<lambda>r. if patient_id r = i then g r else r) rows = rows"
  by (induction rows) auto

lemma update_keeps_ids:
  "(\<And>r. patient_id (g r) = patient_id r) \<Longrightarrow>
   map patient_id (map (\<lambda>r. if patient_id r = i then g r else r) rows) = map patient_id rows"
  by (induction rows) auto

lemma patient_id_set_fields: "patient_id (set_fields f l p g b r) = patient_id r"
  by (simp add: set_fields_def)

lemma phone_set_fields: "phone (set_fields f l p g b r) = p"
  by (simp add: set_fields_def)

lemma update_keeps_phones_distinct:
  assumes "distinct (map patient_id rows)" "distinct (phones rows)"
    and "\<forall>r \<in> set rows. patient_id r \<noteq> i \<longrightarrow> p = None \<or> phone r \<noteq> p"
  shows "distinct (phones (map (\<lambda>r. if patient_id r = i then set_fields f l p g b r else r) rows))"
  using assms
proof (induction rows)
  case Nil
  then show ?case by (simp add: phones_def)
next
  case (Cons r rows)
  show ?case
  proof (cases "patient_id r = i")
    case True
    with Cons.prems(1) have absent: "i \<notin> patient_id ` set rows" by auto
    then have same: "map (\<lambda>r. if patient_id r = i then set_fields f l p g b r else r) rows = rows"
      by (rule update_other_rows)
    from absent have "\<forall>x \<in> set rows. patient_id x \<noteq> i" by blast
    with Cons.prems(3) have "p = None \<or> p \<notin> phone ` set rows" by auto
    with Cons.prems(2) True same show ?thesis
      by (auto simp: phones_Cons phone_set_fields set_phones split: if_splits)
  next
    case False
    have ih: "distinct (phones (map (\<lambda>r. if patient_id r = i then set_fields f l p g b r else r) rows))"
      using Cons.IH Cons.prems by (auto simp: phones_Cons split: if_splits)
    have sub: "set (phones (map (\<lambda>r. if patient_id r = i then set_fields f l p g b r else r) rows))
                 \<subseteq> set (phones rows) \<union> {p}"
      by (auto simp: set_phones phone_set_fields split: if_splits)
    from Cons.prems(3) False have "phone r = None \<or> phone r \<noteq> p" by auto
    with Cons.prems(2) False ih sub show ?thesis
      by (auto simp: phones_Cons split: if_splits)
  qed
qed

lemma delete_keeps_phones_distinct:
  "distinct (phones rows) \<Longrightarrow> distinct (phones (filter P rows))"
  by (induction rows) (auto simp: phones_Cons set_phones split: if_splits)

lemma id_is_cases:
  obtains i where "id_is k = (\<lambda>r. patient_id r = i)" | "id_is k = (\<lambda>r. False)"
  by (cases k) (auto simp: fun_eq_iff)

lemma id_is_numpy: "id_is (bind_param (NumpyInt64 n)) r = False"
  by simp

lemma sqlite_exec_keeps_db_ok:
  assumes "db_ok d" "sqlite_exec ts q d = Inr (rows, d')"
  shows "db_ok d'"
proof (cases q)
  case (InsertPatient f l p g b)
  with assms have free: "\<not> phone_taken p (patients d)"
    and d': "patients d' = patients d @
        [\<lparr>patient_id = next_rowid d, first_name = f, last_name = l, phone = Some p,
          gender = Some g, dob = None, blood_type = Some b, created_at = Some ts\<rparr>]"
    by (auto split: if_splits)
  from free have "Some p \<notin> set (phones (patients d))"
    unfolding phone_taken_def set_phones by force
  with assms(1) next_rowid_not_used[of d] show ?thesis
    unfolding db_ok_phones d' by (simp add: phones_append phones_Cons phones_def[of "[]"])
next
  case (UpdatePatient f l p g b v)
  show ?thesis
  proof (cases "bind_param v" rule: id_is_cases)
    case (1 i)
    with UpdatePatient assms have d': "d' = d\<lparr>patients :=
          map (\<lambda>r. if patient_id r = i then set_fields f l p g b r else r) (patients d)\<rparr>"
      and ok: "\<not> ((\<exists>r \<in> set (patients d). patient_id r = i) \<and>
           (\<exists>r \<in> set (patients d). patient_id r \<noteq> i \<and> p \<noteq> None \<and> phone r = p))"
      by (auto split: if_splits)
    show ?thesis
    proof (cases "\<exists>r \<in> set (patients d). patient_id r = i")
      case True
      with ok have "\<forall>r \<in> set (patients d). patient_id r \<noteq> i \<longrightarrow> p = None \<or> phone r \<noteq> p"
        by blast
      with assms(1) show ?thesis
        unfolding d' db_ok_phones
        by (simp add: update_keeps_ids patient_id_set_fields update_keeps_phones_distinct
                 del: map_map)
    next
      case False
      then have "i \<notin> patient_id ` set (patients d)" by auto
      from update_other_rows[OF this] assms(1) show ?thesis
        unfolding d' by (simp add: db_ok_def)
    qed
  next
    case 2
    with UpdatePatient assms show ?thesis by simp
  qed
next
  case (DeletePatient v)
  with assms show ?thesis
    by (auto simp: db_ok_phones distinct_map_filter delete_keeps_phones_distinct)
qed (use assms in auto)

lemma sqlite_exec_keeps_staff:
  "sqlite_exec ts q d = Inr (r, d') \<Longrightarrow> doctors d' = doctors d \<and> staff d' = staff d"
  by (cases q) (auto split: if_splits)

lemma run_query_keeps_db_ok: "db_ok (store w) \<Longrightarrow> db_ok (store (snd (run_query q f c w)))"
  by (cases f)
     (auto simp: run_query_fetch run_query_exec failed_def
        split: sum.splits option.splits prod.splits dest: sqlite_exec_keeps_db_ok)

lemma run_query_keeps_staff:
  "doctors (store (snd (run_query q f c w))) = doctors (store w) \<and>
   staff (store (snd (run_query q f c w))) = staff (store w)"
  by (cases f)
     (auto simp: run_query_fetch run_query_exec failed_def
        split: sum.splits option.splits prod.splits dest: sqlite_exec_keeps_staff)

subsection \<open>Which branch a page runs\<close>

lemma selectbox_in_options:
  "index < length options \<Longrightarrow> selectbox options index pick \<in> set options"
  unfolding selectbox_def by (rule nth_mem) (simp split: option.splits)

lemma selectbox_main_modules: "selectbox main_modules 0 pick \<in> set main_modules"
  by (rule selectbox_in_options) (simp add: main_modules_def)

lemma dispatch_main_modules: "page \<in> set main_modules \<Longrightarrow> dispatch page \<noteq> DoctorsStaff"
  by (auto simp: main_modules_def dispatch_def doctors_label_def staff_label_def str_def)

subsection \<open>What every run respects\<close>

lemma frame_render: "frame inp R \<Longrightarrow> R w w1 \<Longrightarrow> R w (render e w1)"
  unfolding frame_def by blast

lemma frame_run_query:
  "frame inp R \<Longrightarrow> run_query q f c w1 = (r, w2) \<Longrightarrow> issues inp q f c \<Longrightarrow> R w w1 \<Longrightarrow> R w w2"
  unfolding frame_def by (metis snd_conv)

lemma frame_dashboard:
  assumes fr: "frame inp R" and run: "dashboard w = (r, w')" and pre: "R w0 w"
  shows "R w0 w'"
  using run pre unfolding dashboard_def
  by (auto split: prod.splits sum.splits
           intro!: frame_render[OF fr] elim!: frame_run_query[OF fr])

lemma frame_patients_list_tab:
  assumes fr: "frame inp R" and pre: "R w0 w"
  shows "R w0 (patients_list_tab inp w)"
  using pre unfolding patients_list_tab_def list_query_def
  by (auto simp: Let_def split: prod.splits option.splits
           intro!: frame_render[OF fr] elim!: frame_run_query[OF fr])

lemma frame_add_new:
  assumes fr: "frame inp R" and run: "add_new inp w = (r, w')" and pre: "R w0 w"
    and mode: "add_mode inp"
  shows "R w0 w'"
  using run pre mode unfolding add_new_def create_patient_def
  by (auto simp: Let_def split: prod.splits if_splits
           intro!: frame_render[OF fr] elim!: frame_run_query[OF fr])

lemma select_by_numpy_id:
  "run_query (SelectPatientById (NumpyInt64 n)) True False w =
     (Some (PatientFrame []), w\<lparr>journal := journal w @ [SelectPatientById (NumpyInt64 n)]\<rparr>)"
  by (simp add: run_query_fetch)

lemma find_pid_numpy: "find_pid rows choice = Inr v \<Longrightarrow> \<exists>n. v = NumpyInt64 n"
  by (auto simp: find_pid_def split: list.splits)

lemma frame_edit_delete:
  assumes fr: "frame inp R" and run: "edit_delete inp w = (r, w')" and pre: "R w0 w"
  shows "R w0 w'"
  using run pre unfolding edit_delete_def
  by (auto simp: Let_def select_by_numpy_id
           split: prod.splits if_splits sum.splits option.splits
           dest!: find_pid_numpy
           intro!: frame_render[OF fr] elim!: frame_run_query[OF fr])

lemma frame_patients_page:
  assumes fr: "frame inp R" and run: "patients_page inp w = (r, w')" and pre: "R w0 w"
  shows "R w0 w'"
  using run frame_patients_list_tab[OF fr pre]
  unfolding patients_page_def patients_manage_tab_def
  by (auto simp: Let_def add_mode_def split: if_splits
           elim: frame_add_new[OF fr] frame_edit_delete[OF fr])

lemma frame_main_area:
  assumes fr: "frame inp R" and run: "main_area inp page w = (r, w')" and pre: "R w0 w"
    and page: "page \<in> set main_modules"
  shows "R w0 w'"
proof -
  have title: "R w0 (render (Title (str ''MedCare Hospital '' @ [8594] @ str '' '' @ page)) w)"
    by (rule frame_render[OF fr pre])
  show ?thesis
  proof (cases "dispatch page")
    case Dashboard
    with run title show ?thesis
      by (auto simp: main_area_def elim: frame_dashboard[OF fr])
  next
    case Patients
    with run title show ?thesis
      by (auto simp: main_area_def elim: frame_patients_page[OF fr])
  next
    case DoctorsStaff
    with dispatch_main_modules[OF page] show ?thesis by simp
  next
    case Remaining
    with run title show ?thesis
      by (auto simp: main_area_def placeholder_def intro!: frame_render[OF fr])
  qed
qed

lemma init_db_idle: "init_db w = w"
  by (simp add: init_db_def get_db_def close_def)

lemma frame_app:
  assumes fr: "frame inp R" and run: "app inp w = (r, w')"
    and sess: "\<And>s a b. R a b \<Longrightarrow> R a (b\<lparr>session := s\<rparr>)"
    and start: "R w (w\<lparr>journal := [], screen := []\<rparr>)"
  shows "R w w'"
proof -
  define w1 where "w1 = init_session (init_db (w\<lparr>journal := [], screen := []\<rparr>))"
  have w1: "R w w1"
    using start unfolding w1_def init_session_def init_db_idle
    by (auto split: option.splits intro: sess)
  show ?thesis
    using run w1 selectbox_main_modules
    unfolding app_def w1_def[symmetric] sidebar_def login_screen_def
    by (auto simp: Let_def split: prod.splits if_splits sum.splits
           intro!: frame_render[OF fr] sess elim: frame_main_area[OF fr])
qed

section \<open>The claims\<close>

subsection \<open>C10: a failed statement looks like a successful one\<close>

text \<open>
  Claim C10. Whatever the statement and its parameters, \<open>run_query\<close> lets no exception
  out: when SQLite raises, the error goes to the page, the connection is closed, the store
  is left as it was and \<open>None\<close> is returned. \<open>None\<close> is also what every call without
  \<open>fetch_df\<close> returns, so the caller of a write cannot tell the two apart; the create
  handler draws \<open>Patient created!\<close> and asks for a rerun even when the \<open>INSERT\<close> was
  refused.
\<close>

theorem run_query_hides_failure:
  "(sqlite_exec (now w) sql (store w) = Inl e \<longrightarrow>
      run_query sql fetch_df commit w = (None, failed e sql w)) \<and>
   fst (run_query sql False commit w) = None \<and>
   connections (snd (run_query sql fetch_df commit w)) = connections w \<and>
   (fn \<noteq> [] \<and> ln \<noteq> [] \<and> ph \<noteq> [] \<and> phone_taken ph (patients (store w)) \<longrightarrow>
      create_patient fn ln ph g blood w =
        (Inl Rerun, render (Success (str ''Patient created!''))
                      (failed unique_phone_failed (InsertPatient fn ln ph g blood) w)))"
proof -
  have "run_query sql fetch_df commit w = (None, failed e sql w)"
    if "sqlite_exec (now w) sql (store w) = Inl e"
    using that by (cases fetch_df) (simp_all add: run_query_fetch run_query_exec)
  moreover have "fst (run_query sql False commit w) = None"
    by (simp add: run_query_exec split: sum.splits prod.splits)
  moreover have "create_patient fn ln ph g blood w =
        (Inl Rerun, render (Success (str ''Patient created!''))
                      (failed unique_phone_failed (InsertPatient fn ln ph g blood) w))"
    if "fn \<noteq> []" "ln \<noteq> []" "ph \<noteq> []" "phone_taken ph (patients (store w))"
    using that by (simp add: create_patient_def run_query_exec)
  ultimately show ?thesis
    using run_query_connections by blast
qed

theorem run_query_hides_failure_witness:
  "sqlite_exec (now desk) (InsertPatient (str ''Grace'') (str ''Hopper'') (str ''555'') [] []) (store desk)
     = Inl unique_phone_failed \<and>
   run_query (InsertPatient (str ''Grace'') (str ''Hopper'') (str ''555'') [] []) False True desk
     = (None, failed unique_phone_failed (InsertPatient (str ''Grace'') (str ''Hopper'') (str ''555'') [] []) desk) \<and>
   str ''Grace'' \<noteq> [] \<and> str ''Hopper'' \<noteq> [] \<and> str ''555'' \<noteq> [] \<and>
   phone_taken (str ''555'') (patients (store desk)) \<and>
   create_patient (str ''Grace'') (str ''Hopper'') (str ''555'') [] [] desk =
     (Inl Rerun, render (Success (str ''Patient created!''))
        (failed unique_phone_failed (InsertPatient (str ''Grace'') (str ''Hopper'') (str ''555'') [] []) desk))"
proof -
  have taken: "phone_taken (str ''555'') (patients (store desk))"
    by (simp add: phone_taken_def desk_def ward_def ada_def)
  then have raised: "sqlite_exec (now desk) (InsertPatient (str ''Grace'') (str ''Hopper'') (str ''555'') [] []) (store desk)
     = Inl unique_phone_failed"
    by simp
  have filled: "str ''Grace'' \<noteq> [] \<and> str ''Hopper'' \<noteq> [] \<and> str ''555'' \<noteq> []"
    by (simp add: str_def)
  show ?thesis
    using run_query_hides_failure[of desk "InsertPatient (str ''Grace'') (str ''Hopper'') (str ''555'') [] []"
        unique_phone_failed False True "str ''Grace''" "str ''Hopper''" "str ''555''" "[]" "[]"]
      taken raised filled
    by simp
qed

subsection \<open>Facts about whole runs\<close>

lemma frame_keeps_staff:
  "frame inp (\<lambda>w w'. doctors (store w') = doctors (store w) \<and> staff (store w') = staff (store w))"
  unfolding frame_def by (simp add: render_def run_query_keeps_staff)

lemma app_keeps_staff:
  "doctors (store (snd (app inp w))) = doctors (store w) \<and>
   staff (store (snd (app inp w))) = staff (store w)"
  using frame_app[OF frame_keeps_staff, of inp w "fst (app inp w)" "snd (app inp w)"]
  by simp

lemma frame_journal:
  "frame inp (\<lambda>w w'. set (journal w') \<subseteq> set (journal w) \<union> {q. \<exists>f c. issues inp q f c})"
  unfolding frame_def
  by (auto simp: render_def run_query_journal)

lemma app_journal:
  "set (journal (snd (app inp w))) \<subseteq> {q. \<exists>f c. issues inp q f c}"
proof -
  let ?w = "w\<lparr>journal := [], screen := []\<rparr>"
  have same: "app inp ?w = app inp w" by (simp add: app_def)
  show ?thesis
    using frame_app[OF frame_journal, of inp ?w "fst (app inp w)" "snd (app inp w)"] same
    by simp
qed

lemma frame_session: "frame inp (\<lambda>w w'. session w' = session w)"
  unfolding frame_def by (simp add: render_def run_query_session)

lemma main_area_session:
  "page \<in> set main_modules \<Longrightarrow> session (snd (main_area inp page w)) = session w"
  using frame_main_area[OF frame_session, of inp page w "fst (main_area inp page w)"
      "snd (main_area inp page w)" w]
  by simp

lemma app_logged_out:
  "\<not> logged_in w \<Longrightarrow>
   app inp w = login_screen inp (init_session (w\<lparr>journal := [], screen := []\<rparr>))"
  by (auto simp: app_def init_db_idle sidebar_def login_screen_def init_session_def logged_in_def
        Let_def split: option.splits)

lemma app_logged_in:
  "logged_in w \<Longrightarrow> \<not> logout_button inp \<Longrightarrow>
   app inp w = main_area inp (selectbox main_modules 0 (nav_radio inp)) (w\<lparr>journal := [], screen := []\<rparr>)"
  by (auto simp: app_def init_db_idle sidebar_def login_screen_def init_session_def logged_in_def
        Let_def split: option.splits)

lemma app_logout:
  "logged_in w \<Longrightarrow> logout_button inp \<Longrightarrow>
   app inp w = (Inl Rerun, w\<lparr>journal := [], screen := [], session := Some False\<rparr>)"
  by (auto simp: app_def init_db_idle sidebar_def login_screen_def init_session_def logged_in_def
        Let_def split: option.splits)

lemma patients_list_tab_store: "store (patients_list_tab inp w) = store w"
  using run_query_read_store[of "list_query (search_input inp)" False w]
  by (auto simp: patients_list_tab_def render_def Let_def split: prod.splits option.splits)

lemma app_patients:
  assumes "logged_in w" "\<not> logout_button inp" "nav_radio inp = Some 1"
  shows "app inp w =
     patients_manage_tab inp (patients_list_tab inp
       (render (Title (str ''MedCare Hospital '' @ [8594] @ str '' '' @ str ''Patients (full CRUD)''))
          (w\<lparr>journal := [], screen := []\<rparr>)))"
proof -
  have page: "selectbox main_modules 0 (Some 1) = str ''Patients (full CRUD)''"
    by (simp add: selectbox_def main_modules_def)
  have "dispatch (str ''Patients (full CRUD)'') = Patients"
    by (simp add: dispatch_def str_def)
  with assms page show ?thesis
    by (simp add: app_logged_in main_area_def patients_page_def)
qed

lemma frame_rows_stay:
  "frame inp (\<lambda>w w'. prefix (patients (store w)) (patients (store w')))"
  unfolding frame_def
proof (intro conjI allI impI)
  fix q f c w
  assume "issues inp q f c"
  then show "prefix (patients (store w)) (patients (store (snd (run_query q f c w))))"
    by (cases q; cases f)
       (auto simp: run_query_fetch run_query_exec failed_def split: option.splits)
next
  fix a b c :: world
  assume "prefix (patients (store a)) (patients (store b))"
    and "prefix (patients (store b)) (patients (store c))"
  then show "prefix (patients (store a)) (patients (store c))"
    by (rule prefix_order.trans)
qed (simp_all add: render_def)

lemma app_rows_stay: "prefix (patients (store w)) (patients (store (snd (app inp w))))"
  using frame_app[OF frame_rows_stay, of inp w "fst (app inp w)" "snd (app inp w)"]
  by simp

subsection \<open>C8: the Doctors and Staff branch is dead code\<close>

text \<open>
  Claim C8. Whatever the sidebar selection, the branch for Doctors and Staff is not the one
  the main area runs: its condition compares the page with two labels that start with an
  emoji, and no option of the sidebar does. The sidebar's \<open>Doctors (full CRUD)\<close> and
  \<open>Staff (full CRUD)\<close> draw the placeholder of the remaining modules; no run sends the
  listing statement of either table to SQLite, and no run changes either table.
\<close>

theorem doctors_staff_branch_never_runs:
  "dispatch (selectbox main_modules 0 pick) \<noteq> DoctorsStaff \<and>
   selectbox main_modules 0 (Some 2) = str ''Doctors (full CRUD)'' \<and>
   selectbox main_modules 0 (Some 3) = str ''Staff (full CRUD)'' \<and>
   main_area inp (str ''Doctors (full CRUD)'') w =
     placeholder (str ''Doctors (full CRUD)'')
       (render (Title (str ''MedCare Hospital '' @ [8594] @ str '' '' @ str ''Doctors (full CRUD)'')) w) \<and>
   main_area inp (str ''Staff (full CRUD)'') w =
     placeholder (str ''Staff (full CRUD)'')
       (render (Title (str ''MedCare Hospital '' @ [8594] @ str '' '' @ str ''Staff (full CRUD)'')) w) \<and>
   SelectDoctorsByName \<notin> set (journal (snd (app inp w))) \<and>
   SelectStaffByName \<notin> set (journal (snd (app inp w))) \<and>
   doctors (store (snd (app inp w))) = doctors (store w) \<and>
   staff (store (snd (app inp w))) = staff (store w)"
proof -
  have never: "dispatch (selectbox main_modules 0 pick) \<noteq> DoctorsStaff"
    by (rule dispatch_main_modules[OF selectbox_main_modules])
  have picks: "selectbox main_modules 0 (Some 2) = str ''Doctors (full CRUD)''"
    "selectbox main_modules 0 (Some 3) = str ''Staff (full CRUD)''"
    by (simp_all add: selectbox_def main_modules_def)
  have d: "dispatch (str ''Doctors (full CRUD)'') = Remaining"
    by (simp add: dispatch_def doctors_label_def staff_label_def str_def)
  have s: "dispatch (str ''Staff (full CRUD)'') = Remaining"
    by (simp add: dispatch_def doctors_label_def staff_label_def str_def)
  have pages: "main_area inp (str ''Doctors (full CRUD)'') w =
     placeholder (str ''Doctors (full CRUD)'')
       (render (Title (str ''MedCare Hospital '' @ [8594] @ str '' '' @ str ''Doctors (full CRUD)'')) w)"
    "main_area inp (str ''Staff (full CRUD)'') w =
     placeholder (str ''Staff (full CRUD)'')
       (render (Title (str ''MedCare Hospital '' @ [8594] @ str '' '' @ str ''Staff (full CRUD)'')) w)"
    using d s by (simp_all add: main_area_def)
  have quiet: "SelectDoctorsByName \<notin> set (journal (snd (app inp w)))"
    "SelectStaffByName \<notin> set (journal (snd (app inp w)))"
    using app_journal[of inp w] by auto
  show ?thesis
    using never picks pages quiet app_keeps_staff[of inp w] by simp
qed

subsection \<open>C7: updating a doctor's department\<close>

text \<open>
  Claim C7 asks that an update of a doctor's department shows in the row fetched
  afterwards, with the other fields unchanged. The script announces full CRUD on doctors
  (its header, the sidebar label, the comment over the branch) and has no statement that
  writes the doctors table. Run on the page \<open>Doctors (full CRUD)\<close> of a hospital whose
  one doctor is in Cardiology, it draws the placeholder and sends nothing to SQLite; and
  whatever the widgets return, the doctors table after the run is the one before.
\<close>

theorem doctors_page_offers_no_update:
  "app (idle\<lparr>nav_radio := Some 2\<rparr>) desk =
     (Inr (), desk\<lparr>screen :=
        [Title (str ''MedCare Hospital '' @ [8594] @ str '' '' @ str ''Doctors (full CRUD)''),
         Success (str ''Module: '' @ str ''Doctors (full CRUD)''),
         Info prepared]\<rparr>) \<and>
   (\<forall>inp. doctors (store (snd (app inp desk))) = [house]) \<and>
   doctor_department house = Some (str ''Cardiology'')"
proof -
  have page: "selectbox main_modules 0 (Some 2) = str ''Doctors (full CRUD)''"
    by (simp add: selectbox_def main_modules_def)
  have d: "dispatch (str ''Doctors (full CRUD)'') = Remaining"
    by (simp add: dispatch_def doctors_label_def staff_label_def str_def)
  have run: "app (idle\<lparr>nav_radio := Some 2\<rparr>) desk =
     (Inr (), desk\<lparr>screen :=
        [Title (str ''MedCare Hospital '' @ [8594] @ str '' '' @ str ''Doctors (full CRUD)''),
         Success (str ''Module: '' @ str ''Doctors (full CRUD)''),
         Info prepared]\<rparr>)"
    by (simp add: app_def init_db_idle init_session_def sidebar_def login_screen_def logged_in_def
          page d main_area_def placeholder_def render_def desk_def idle_def)
  have "doctors (store (snd (app inp desk))) = [house]" for inp
    using app_keeps_staff[of inp desk] by (simp add: desk_def ward_def)
  then show ?thesis
    using run by (simp add: house_def)
qed

subsection \<open>C3: logging in and out\<close>

text \<open>
  Claim C3 says the session becomes logged in exactly when the submitted pair is the demo
  pair. The script strips the username before comparing it, so a username with white
  space around \<open>admin\<close> logs in as well: here with one leading blank.
\<close>

theorem login_counterexample:
  "logged_in (snd (app (idle\<lparr>username_input := str '' admin'', password_input := str ''admin123'',
                              login_button := True\<rparr>) fresh)) \<and>
   (str '' admin'', str ''admin123'') \<noteq> (str ''admin'', str ''admin123'')"
  by (simp add: app_logged_out logged_in_def fresh_def login_screen_def init_session_def render_def
        idle_def strip_def py_isspace_def str_def)

text \<open>
  Claim C3, amended. From a session that is logged out, a run ends logged in exactly when
  the Login button was clicked, the username is \<open>admin\<close> once the white space around it
  is stripped, and the password is \<open>admin123\<close>; a click with any other pair stops the
  run logged out under the message \<open>Invalid credentials\<close>. A session that has just
  started is logged out after its first run unless that run logs in; a click on Logout
  logs out; and a logged-in session stays logged in through every other run.
\<close>

theorem login_iff_stripped_credentials:
  "(\<not> logged_in w \<longrightarrow>
      (logged_in (snd (app inp w)) \<longleftrightarrow>
         login_button inp \<and> strip (username_input inp) = str ''admin'' \<and>
         password_input inp = str ''admin123'')) \<and>
   (\<not> logged_in w \<and> login_button inp \<and>
    \<not> (strip (username_input inp) = str ''admin'' \<and> password_input inp = str ''admin123'') \<longrightarrow>
      fst (app inp w) = Inl Stop \<and>
      Error (str ''Invalid credentials'') \<in> set (screen (snd (app inp w)))) \<and>
   (session w = None \<and> \<not> login_button inp \<longrightarrow> session (snd (app inp w)) = Some False) \<and>
   (logged_in w \<and> logout_button inp \<longrightarrow> session (snd (app inp w)) = Some False) \<and>
   (logged_in w \<and> \<not> logout_button inp \<longrightarrow> logged_in (snd (app inp w)))"
proof -
  have out: "logged_in (snd (app inp w)) \<longleftrightarrow>
         login_button inp \<and> strip (username_input inp) = str ''admin'' \<and>
         password_input inp = str ''admin123''" if "\<not> logged_in w"
    using that
    by (auto simp: app_logged_out login_screen_def init_session_def logged_in_def render_def
          Let_def split: option.splits)
  have wrong: "fst (app inp w) = Inl Stop \<and>
      Error (str ''Invalid credentials'') \<in> set (screen (snd (app inp w)))"
    if "\<not> logged_in w" "login_button inp"
      "\<not> (strip (username_input inp) = str ''admin'' \<and> password_input inp = str ''admin123'')"
    using that
    by (auto simp: app_logged_out login_screen_def init_session_def logged_in_def render_def
          Let_def split: option.splits)
  have start: "session (snd (app inp w)) = Some False" if "session w = None" "\<not> login_button inp"
    using that
    by (simp add: app_logged_out login_screen_def init_session_def logged_in_def render_def)
  have logout: "session (snd (app inp w)) = Some False" if "logged_in w" "logout_button inp"
    using that by (simp add: app_logout)
  have stay: "logged_in (snd (app inp w))" if "logged_in w" "\<not> logout_button inp"
    using that main_area_session[OF selectbox_main_modules]
    by (simp add: app_logged_in logged_in_def)
  show ?thesis
    using out wrong start logout stay by blast
qed

theorem login_iff_stripped_credentials_witness:
  "(\<not> logged_in fresh \<and>
    login_button (idle\<lparr>username_input := str ''admin   '', password_input := str ''admin123'',
                        login_button := True\<rparr>) \<and>
    strip (username_input (idle\<lparr>username_input := str ''admin   '', password_input := str ''admin123'',
                        login_button := True\<rparr>)) = str ''admin'' \<and>
    password_input (idle\<lparr>username_input := str ''admin   '', password_input := str ''admin123'',
                        login_button := True\<rparr>) = str ''admin123'' \<and>
    logged_in (snd (app (idle\<lparr>username_input := str ''admin   '', password_input := str ''admin123'',
                        login_button := True\<rparr>) fresh))) \<and>
   (login_button (idle\<lparr>username_input := str ''admin'', password_input := str ''admin'',
                        login_button := True\<rparr>) \<and>
    \<not> (strip (username_input (idle\<lparr>username_input := str ''admin'', password_input := str ''admin'',
                        login_button := True\<rparr>)) = str ''admin'' \<and>
       password_input (idle\<lparr>username_input := str ''admin'', password_input := str ''admin'',
                        login_button := True\<rparr>) = str ''admin123'') \<and>
    fst (app (idle\<lparr>username_input := str ''admin'', password_input := str ''admin'',
                        login_button := True\<rparr>) fresh) = Inl Stop \<and>
    Error (str ''Invalid credentials'')
      \<in> set (screen (snd (app (idle\<lparr>username_input := str ''admin'', password_input := str ''admin'',
                        login_button := True\<rparr>) fresh)))) \<and>
   (session fresh = None \<and> \<not> login_button idle \<and> session (snd (app idle fresh)) = Some False) \<and>
   (logged_in desk \<and> logout_button (idle\<lparr>logout_button := True\<rparr>) \<and>
    session (snd (app (idle\<lparr>logout_button := True\<rparr>) desk)) = Some False) \<and>
   (\<not> logout_button idle \<and> logged_in (snd (app idle desk)))"
proof -
  let ?good = "idle\<lparr>username_input := str ''admin   '', password_input := str ''admin123'',
                    login_button := True\<rparr>"
  let ?bad = "idle\<lparr>username_input := str ''admin'', password_input := str ''admin'',
                   login_button := True\<rparr>"
  have out: "\<not> logged_in fresh" "session fresh = None"
    by (simp_all add: logged_in_def fresh_def)
  have inside: "logged_in desk"
    by (simp add: logged_in_def desk_def)
  have good: "login_button ?good" "strip (username_input ?good) = str ''admin''"
    "password_input ?good = str ''admin123''"
    by (simp_all add: strip_def py_isspace_def str_def)
  have bad: "login_button ?bad"
    "\<not> (strip (username_input ?bad) = str ''admin'' \<and> password_input ?bad = str ''admin123'')"
    by (simp_all add: str_def)
  have rest: "\<not> login_button idle" "\<not> logout_button idle" "logout_button (idle\<lparr>logout_button := True\<rparr>)"
    by (simp_all add: idle_def)
  note claim = login_iff_stripped_credentials
  have c1: "logged_in (snd (app ?good fresh))"
    using claim[of fresh ?good, THEN conjunct1] out(1) good by (simp only: simp_thms)
  have c2: "fst (app ?bad fresh) = Inl Stop \<and>
      Error (str ''Invalid credentials'') \<in> set (screen (snd (app ?bad fresh)))"
    using claim[of fresh ?bad, THEN conjunct2, THEN conjunct1] out(1) bad
    by (simp only: simp_thms)
  have c3: "session (snd (app idle fresh)) = Some False"
    using claim[of fresh idle, THEN conjunct2, THEN conjunct2, THEN conjunct1] out(2) rest(1)
    by (simp only: simp_thms)
  have c4: "session (snd (app (idle\<lparr>logout_button := True\<rparr>) desk)) = Some False"
    using claim[of desk "idle\<lparr>logout_button := True\<rparr>",
        THEN conjunct2, THEN conjunct2, THEN conjunct2, THEN conjunct1] inside rest(3)
    by (simp only: simp_thms)
  have c5: "logged_in (snd (app idle desk))"
    using claim[of desk idle, THEN conjunct2, THEN conjunct2, THEN conjunct2, THEN conjunct2]
      inside rest(2)
    by (simp only: simp_thms)
  show ?thesis
    by (intro conjI out inside good bad rest c1 c2[THEN conjunct1] c2[THEN conjunct2] c3 c4 c5)
qed

subsection \<open>Facts about the patients table and the create handler\<close>

text \<open>
  The guarantees of the schema hold of a new file and survive every run, so they can be
  assumed of any store the script meets.
\<close>

lemma db_ok_empty: "db_ok empty_db"
  by (simp add: db_ok_def empty_db_def)

lemma frame_db_ok: "frame inp (\<lambda>w w'. db_ok (store w) \<longrightarrow> db_ok (store w'))"
  unfolding frame_def by (simp add: render_def run_query_keeps_db_ok)

lemma app_keeps_db_ok: "db_ok (store w) \<Longrightarrow> db_ok (store (snd (app inp w)))"
  using frame_app[OF frame_db_ok, of inp w "fst (app inp w)" "snd (app inp w)"]
  by simp

lemma one_row_per_phone:
  "distinct (phones rows) \<Longrightarrow> phone_taken p rows \<Longrightarrow>
   length (filter (\<lambda>r. phone r = Some p) rows) = 1"
proof (induction rows)
  case Nil
  then show ?case by (simp add: phone_taken_def)
next
  case (Cons r rows)
  show ?case
  proof (cases "phone r = Some p")
    case True
    with Cons.prems(1) have "Some p \<notin> set (phones rows)" by (simp add: phones_Cons)
    then have "filter (\<lambda>r. phone r = Some p) rows = []"
      by (auto simp: set_phones filter_empty_conv image_iff)
    with True show ?thesis by simp
  next
    case False
    with Cons.prems have "distinct (phones rows)" "phone_taken p rows"
      by (auto simp: phones_Cons phone_taken_def split: if_splits)
    with Cons.IH False show ?thesis by simp
  qed
qed

lemma cnt_patients:
  "cnt (fst (run_query CountPatients True False w)) = Inr (length (patients (store w)))"
  by (simp add: run_query_fetch)

lemma create_patient_blank:
  "fn = [] \<or> ln = [] \<or> ph = [] \<Longrightarrow>
   create_patient fn ln ph g blood w = (Inr (), render (Warning (str ''Required fields missing'')) w)"
  by (auto simp: create_patient_def)

lemma frame_store_add_blank:
  assumes "add_mode inp"
    and "first_name_input inp = [] \<or> last_name_input inp = [] \<or> phone_input inp = []"
  shows "frame inp (\<lambda>w w'. store w' = store w)"
  unfolding frame_def
proof (intro conjI allI impI)
  fix q f c w
  assume "issues inp q f c"
  with assms show "store (snd (run_query q f c w)) = store w"
    by (cases q) (auto simp: run_query_read_store)
qed (simp_all add: render_def)

subsection \<open>C4: a blank required field\<close>

text \<open>
  Claim C4 says a create submission with a blank required field is rejected. The guard
  \<open>if fn and ln and ph\<close> tests for the empty string only: a first name of two spaces
  passes it, the row is stored with that first name, and the count goes from 1 to 2. So
  does the whole run in which that form is submitted.
\<close>

theorem blank_counterexample:
  "strip (str ''  '') = [] \<and>
   cnt (fst (run_query CountPatients True False desk)) = Inr 1 \<and>
   cnt (fst (run_query CountPatients True False
          (snd (create_patient (str ''  '') (str ''Hopper'') (str ''777'') [] [] desk)))) = Inr 2 \<and>
   patients (store (snd (create_patient (str ''  '') (str ''Hopper'') (str ''777'') [] [] desk))) =
     [ada,
      \<lparr>patient_id = 2, first_name = str ''  '', last_name = str ''Hopper'',
        phone = Some (str ''777''), gender = Some [], dob = None, blood_type = Some [],
        created_at = Some (now desk)\<rparr>] \<and>
   patients (store (snd (app (idle\<lparr>nav_radio := Some 1, first_name_input := str ''  '',
                                    last_name_input := str ''Hopper'', phone_input := str ''777'',
                                    create_button := True\<rparr>) desk))) =
     [ada,
      \<lparr>patient_id = 2, first_name = str ''  '', last_name = str ''Hopper'',
        phone = Some (str ''777''), gender = Some [], dob = None, blood_type = Some [],
        created_at = Some (now desk)\<rparr>]"
proof -
  let ?inp = "idle\<lparr>nav_radio := Some 1, first_name_input := str ''  '',
                   last_name_input := str ''Hopper'', phone_input := str ''777'',
                   create_button := True\<rparr>"
  let ?new = "\<lparr>patient_id = 2, first_name = str ''  '', last_name = str ''Hopper'',
        phone = Some (str ''777''), gender = Some [], dob = None, blood_type = Some [],
        created_at = Some (now desk)\<rparr>"
  have blank: "strip (str ''  '') = []"
    by (simp add: strip_def py_isspace_def str_def)
  have filled: "str ''  '' \<noteq> [] \<and> str ''Hopper'' \<noteq> [] \<and> str ''777'' \<noteq> []"
    by (simp add: str_def)
  have created: "patients (store (snd (create_patient (str ''  '') (str ''Hopper'') (str ''777'') [] [] w)))
      = [ada, ?new]"
    if "store w = ward" "now w = now desk" for w
  proof -
    have free: "\<not> phone_taken (str ''777'') (patients (store w))"
      using that by (simp add: phone_taken_def ward_def ada_def str_def)
    have rowid: "next_rowid (store w) = 2"
      using that by (simp add: next_rowid_def ward_def ada_def)
    show ?thesis
      using filled free rowid that
      by (simp add: create_patient_def run_query_exec render_def ward_def)
  qed
  have handler: "patients (store (snd (create_patient (str ''  '') (str ''Hopper'') (str ''777'') [] [] desk)))
      = [ada, ?new]"
    by (rule created) (simp_all add: desk_def)
  define w1 where "w1 = patients_list_tab ?inp
       (render (Title (str ''MedCare Hospital '' @ [8594] @ str '' '' @ str ''Patients (full CRUD)''))
          (desk\<lparr>journal := [], screen := []\<rparr>))"
  have st: "store w1 = ward"
    unfolding w1_def by (simp add: patients_list_tab_store render_def desk_def)
  have clock: "now w1 = now desk"
    unfolding w1_def
    by (auto simp: patients_list_tab_def run_query_fetch render_def failed_def Let_def
          split: prod.splits option.splits sum.splits)
  have "app ?inp desk = patients_manage_tab ?inp w1"
    unfolding w1_def by (rule app_patients) (simp_all add: logged_in_def desk_def idle_def)
  also have "\<dots> = create_patient (str ''  '') (str ''Hopper'') (str ''777'') [] [] w1"
    by (simp add: patients_manage_tab_def add_new_def selectbox_def action_options_def
          gender_options_def blood_options_def idle_def)
  finally have run: "patients (store (snd (app ?inp desk))) = [ada, ?new]"
    using created[OF st clock] by simp
  have before: "cnt (fst (run_query CountPatients True False desk)) = Inr 1"
    by (simp add: cnt_patients desk_def ward_def)
  have after: "cnt (fst (run_query CountPatients True False
          (snd (create_patient (str ''  '') (str ''Hopper'') (str ''777'') [] [] desk)))) = Inr 2"
    by (simp add: cnt_patients handler)
  show ?thesis
    by (rule conjI[OF blank conjI[OF before conjI[OF after conjI[OF handler run]]]])
qed

text \<open>
  Claim C4, amended. When the first name, the last name or the phone of a create
  submission is empty (of length zero), the handler draws the warning
  \<open>Required fields missing\<close> and does nothing else: it sends no statement, the store is
  untouched and the patient count is what it was. For the whole run: with the action at
  \<open>Add New\<close> and one of the three boxes empty, the store after the run is the store
  before it and no \<open>INSERT\<close> was sent. A field of white space only counts as filled.
\<close>

theorem blank_required_field_rejected:
  "(fn = [] \<or> ln = [] \<or> ph = [] \<longrightarrow>
      fst (create_patient fn ln ph g blood w) = Inr () \<and>
      journal (snd (create_patient fn ln ph g blood w)) = journal w \<and>
      store (snd (create_patient fn ln ph g blood w)) = store w \<and>
      screen (snd (create_patient fn ln ph g blood w)) =
        screen w @ [Warning (str ''Required fields missing'')] \<and>
      cnt (fst (run_query CountPatients True False (snd (create_patient fn ln ph g blood w)))) =
        cnt (fst (run_query CountPatients True False w))) \<and>
   (add_mode inp \<and>
    (first_name_input inp = [] \<or> last_name_input inp = [] \<or> phone_input inp = []) \<longrightarrow>
      store (snd (app inp w)) = store w \<and>
      (\<forall>f l p g b. InsertPatient f l p g b \<notin> set (journal (snd (app inp w)))))"
proof -
  have handler: "fst (create_patient fn ln ph g blood w) = Inr () \<and>
      journal (snd (create_patient fn ln ph g blood w)) = journal w \<and>
      store (snd (create_patient fn ln ph g blood w)) = store w \<and>
      screen (snd (create_patient fn ln ph g blood w)) =
        screen w @ [Warning (str ''Required fields missing'')] \<and>
      cnt (fst (run_query CountPatients True False (snd (create_patient fn ln ph g blood w)))) =
        cnt (fst (run_query CountPatients True False w))"
    if "fn = [] \<or> ln = [] \<or> ph = []"
    by (simp add: create_patient_blank[OF that] cnt_patients) (simp add: render_def)
  have run: "store (snd (app inp w)) = store w \<and>
      (\<forall>f l p g b. InsertPatient f l p g b \<notin> set (journal (snd (app inp w))))"
    if mode: "add_mode inp"
      and blank: "first_name_input inp = [] \<or> last_name_input inp = [] \<or> phone_input inp = []"
  proof
    show "store (snd (app inp w)) = store w"
      using frame_app[OF frame_store_add_blank[OF mode blank], of w "fst (app inp w)" "snd (app inp w)"]
      by simp
    show "\<forall>f l p g b. InsertPatient f l p g b \<notin> set (journal (snd (app inp w)))"
      using app_journal[of inp w] blank by auto
  qed
  show ?thesis using handler run by blast
qed

theorem blank_required_field_rejected_witness:
  "(([]::pystr) = [] \<or> str ''Hopper'' = [] \<or> str ''556'' = []) \<and>
   (fst (create_patient [] (str ''Hopper'') (str ''556'') [] [] desk) = Inr () \<and>
    journal (snd (create_patient [] (str ''Hopper'') (str ''556'') [] [] desk)) = journal desk \<and>
    store (snd (create_patient [] (str ''Hopper'') (str ''556'') [] [] desk)) = store desk \<and>
    screen (snd (create_patient [] (str ''Hopper'') (str ''556'') [] [] desk)) =
      screen desk @ [Warning (str ''Required fields missing'')] \<and>
    cnt (fst (run_query CountPatients True False
                (snd (create_patient [] (str ''Hopper'') (str ''556'') [] [] desk)))) =
      cnt (fst (run_query CountPatients True False desk))) \<and>
   (add_mode (idle\<lparr>nav_radio := Some 1, last_name_input := str ''Hopper'', create_button := True\<rparr>) \<and>
    (first_name_input (idle\<lparr>nav_radio := Some 1, last_name_input := str ''Hopper'', create_button := True\<rparr>) = [] \<or>
     last_name_input (idle\<lparr>nav_radio := Some 1, last_name_input := str ''Hopper'', create_button := True\<rparr>) = [] \<or>
     phone_input (idle\<lparr>nav_radio := Some 1, last_name_input := str ''Hopper'', create_button := True\<rparr>) = [])) \<and>
   (store (snd (app (idle\<lparr>nav_radio := Some 1, last_name_input := str ''Hopper'', create_button := True\<rparr>) desk))
      = store desk \<and>
    (\<forall>f l p g b. InsertPatient f l p g b
       \<notin> set (journal (snd (app (idle\<lparr>nav_radio := Some 1, last_name_input := str ''Hopper'',
                                          create_button := True\<rparr>) desk)))))"
proof -
  let ?inp = "idle\<lparr>nav_radio := Some 1, last_name_input := str ''Hopper'', create_button := True\<rparr>"
  have h1: "([]::pystr) = [] \<or> str ''Hopper'' = [] \<or> str ''556'' = []"
    by simp
  have h2: "add_mode ?inp \<and>
    (first_name_input ?inp = [] \<or> last_name_input ?inp = [] \<or> phone_input ?inp = [])"
    by (simp add: add_mode_def selectbox_def action_options_def idle_def)
  note claim = blank_required_field_rejected[of "[]" "str ''Hopper''" "str ''556''" "[]" "[]" desk ?inp]
  show ?thesis
    by (rule conjI[OF h1 conjI[OF claim[THEN conjunct1, THEN mp, OF h1]
          conjI[OF h2 claim[THEN conjunct2, THEN mp, OF h2]]]])
qed

subsection \<open>C5: a create submission with every required field\<close>




subsection \<open>C2: a second patient with the same phone\<close>

text \<open>
  Claim C2. When a row of the store holds phone \<open>p\<close> and a create submission with its
  required fields filled carries the same \<open>p\<close>, SQLite refuses the \<open>INSERT\<close> with the
  integrity error of the \<open>UNIQUE\<close> constraint, \<open>run_query\<close> puts that error on the
  page, the store is unchanged, and exactly one row holds \<open>p\<close> afterwards.
\<close>

theorem duplicate_phone_rejected:
  "db_ok (store w) \<and> phone_taken ph (patients (store w)) \<and> fn \<noteq> [] \<and> ln \<noteq> [] \<and> ph \<noteq> [] \<longrightarrow>
     sqlite_exec (now w) (InsertPatient fn ln ph g blood) (store w) = Inl unique_phone_failed \<and>
     store (snd (create_patient fn ln ph g blood w)) = store w \<and>
     Error (str ''Database error: '' @ str ''UNIQUE constraint failed: patients.phone'')
       \<in> set (screen (snd (create_patient fn ln ph g blood w))) \<and>
     length (with_phone ph (store (snd (create_patient fn ln ph g blood w)))) = 1"
proof
  assume h: "db_ok (store w) \<and> phone_taken ph (patients (store w)) \<and> fn \<noteq> [] \<and> ln \<noteq> [] \<and> ph \<noteq> []"
  then have raised: "sqlite_exec (now w) (InsertPatient fn ln ph g blood) (store w) = Inl unique_phone_failed"
    by simp
  with h have run: "create_patient fn ln ph g blood w =
      (Inl Rerun, render (Success (str ''Patient created!''))
                    (failed unique_phone_failed (InsertPatient fn ln ph g blood) w))"
    by (simp add: create_patient_def run_query_exec)
  from h have one: "length (with_phone ph (store w)) = 1"
    unfolding with_phone_def by (simp add: one_row_per_phone db_ok_phones)
  from run have same: "store (snd (create_patient fn ln ph g blood w)) = store w"
    by (simp add: render_def failed_def)
  from run have shown: "Error (str ''Database error: '' @ str ''UNIQUE constraint failed: patients.phone'')
       \<in> set (screen (snd (create_patient fn ln ph g blood w)))"
    by (simp add: render_def failed_def unique_phone_failed_def)
  from raised same shown one
  show "sqlite_exec (now w) (InsertPatient fn ln ph g blood) (store w) = Inl unique_phone_failed \<and>
     store (snd (create_patient fn ln ph g blood w)) = store w \<and>
     Error (str ''Database error: '' @ str ''UNIQUE constraint failed: patients.phone'')
       \<in> set (screen (snd (create_patient fn ln ph g blood w))) \<and>
     length (with_phone ph (store (snd (create_patient fn ln ph g blood w)))) = 1"
    by simp
qed

theorem duplicate_phone_rejected_witness:
  "(db_ok (store desk) \<and> phone_taken (str ''555'') (patients (store desk)) \<and>
    str ''Grace'' \<noteq> [] \<and> str ''Hopper'' \<noteq> [] \<and> str ''555'' \<noteq> []) \<and>
   (sqlite_exec (now desk) (InsertPatient (str ''Grace'') (str ''Hopper'') (str ''555'') [] []) (store desk)
      = Inl unique_phone_failed \<and>
    store (snd (create_patient (str ''Grace'') (str ''Hopper'') (str ''555'') [] [] desk)) = store desk \<and>
    Error (str ''Database error: '' @ str ''UNIQUE constraint failed: patients.phone'')
      \<in> set (screen (snd (create_patient (str ''Grace'') (str ''Hopper'') (str ''555'') [] [] desk))) \<and>
    length (with_phone (str ''555'')
              (store (snd (create_patient (str ''Grace'') (str ''Hopper'') (str ''555'') [] [] desk)))) = 1)"
proof -
  have h: "db_ok (store desk) \<and> phone_taken (str ''555'') (patients (store desk)) \<and>
    str ''Grace'' \<noteq> [] \<and> str ''Hopper'' \<noteq> [] \<and> str ''555'' \<noteq> []"
    by (simp add: db_ok_def phone_taken_def desk_def ward_def ada_def str_def)
  show ?thesis
    by (rule conjI[OF h duplicate_phone_rejected[of desk "str ''555''" "str ''Grace''" "str ''Hopper''"
            "[]" "[]", THEN mp, OF h]])
qed

subsection \<open>C6: searching patients\<close>

lemma like_col_contains:
  "wildcard_free s \<Longrightarrow>
   like_col (like_pattern s) v \<longleftrightarrow> (case v of None \<Rightarrow> False | Some p \<Rightarrow> contains_ci s p)"
  by (simp add: like_col_def like_pattern_contains split: option.splits)

text \<open>
  Claim C6 says a search returns exactly the rows in which a field contains the search
  text. The script puts the text between two \<open>%\<close> and hands it to \<open>LIKE\<close> as it is,
  so a \<open>%\<close> or \<open>_\<close> in it is a wildcard: the search for \<open>_\<close> returns Ada Byron,
  whose first name, last name and phone hold no underscore.
\<close>

theorem search_counterexample:
  "fst (run_query (list_query (str ''_'')) True False desk) = Some (PatientFrame [ada]) \<and>
   \<not> matches (str ''_'') ada"
proof -
  have "like (like_pattern (str ''_'')) (first_name ada)"
    by (simp add: like_pattern_def str_def ada_def percent_def underscore_def)
  then have "fst (run_query (list_query (str ''_'')) True False desk) = Some (PatientFrame [ada])"
    by (simp add: list_query_def run_query_fetch desk_def ward_def str_def)
  moreover have "\<not> matches (str ''_'') ada"
    by (simp add: matches_def contains_ci_def ada_def str_def ascii_lower_def sublist_code)
  ultimately show ?thesis by simp
qed

text \<open>
  Claim C6, amended. For a search text that is not empty and holds neither \<open>%\<close> nor
  \<open>_\<close>, the search returns, in table order, exactly the rows in which the first name,
  the last name or the phone (when it is not \<open>NULL\<close>) contains the text as a contiguous
  substring, the case of the ASCII letters ignored. With an empty search text it returns
  every row.
\<close>

theorem search_is_substring_match:
  "(search \<noteq> [] \<and> wildcard_free search \<longrightarrow>
      fst (run_query (list_query search) True False w) =
        Some (PatientFrame (filter (matches search) (patients (store w))))) \<and>
   (search = [] \<longrightarrow>
      fst (run_query (list_query search) True False w) = Some (PatientFrame (patients (store w))))"
proof -
  have "(\<lambda>r. like (like_pattern search) (first_name r) \<or> like (like_pattern search) (last_name r) \<or>
             like_col (like_pattern search) (phone r)) = matches search"
    if "wildcard_free search"
    using that by (simp add: fun_eq_iff matches_def like_pattern_contains like_col_contains)
  then show ?thesis
    by (simp add: list_query_def run_query_fetch)
qed

theorem search_is_substring_match_witness:
  "(str ''byR'' \<noteq> [] \<and> wildcard_free (str ''byR'')) \<and>
   fst (run_query (list_query (str ''byR'')) True False desk) =
     Some (PatientFrame (filter (matches (str ''byR'')) (patients (store desk)))) \<and>
   filter (matches (str ''byR'')) (patients (store desk)) = [ada] \<and>
   fst (run_query (list_query []) True False desk) = Some (PatientFrame (patients (store desk)))"
proof -
  have h: "str ''byR'' \<noteq> [] \<and> wildcard_free (str ''byR'')"
    by (simp add: str_def wildcard_free_def percent_def underscore_def)
  have m: "filter (matches (str ''byR'')) (patients (store desk)) = [ada]"
    by (simp add: matches_def contains_ci_def desk_def ward_def ada_def str_def ascii_lower_def
          sublist_code)
  note claim = search_is_substring_match
  show ?thesis
    by (rule conjI[OF h conjI[OF claim[of "str ''byR''" desk, THEN conjunct1, THEN mp, OF h]
          conjI[OF m claim[of "[]" desk, THEN conjunct2, THEN mp, OF refl]]]])
qed

subsection \<open>C1: deleting a patient\<close>

lemma delete_by_numpy_id:
  "delete_patient True (NumpyInt64 n) w =
     (Inl Rerun, render (Success (str ''Deleted!''))
        (w\<lparr>journal := journal w @ [DeletePatient (NumpyInt64 n)],
           store := (store w)\<lparr>patients := patients (store w)\<rparr>\<rparr>))"
  by (simp add: delete_patient_def run_query_exec)

lemma find_pid_null: "find_pid rows None = Inl out_of_bounds"
  by (simp add: find_pid_def split: prod.splits)

lemma find_pid_first_match:
  "l \<noteq> Some c \<Longrightarrow> find_pid [(i, l), (j, Some c), (k, Some c)] (Some c) = Inr (NumpyInt64 j)"
  by (simp add: find_pid_def)

lemma edit_delete_on_ward:
  assumes "store w = ward" "patient_select inp = None"
  shows "edit_delete inp w =
     (Inr (), w\<lparr>journal := journal w @ [SelectPatientLabels, SelectPatientById (NumpyInt64 1)]\<rparr>)"
  using assms
  by (simp add: edit_delete_def run_query_fetch ward_def label_def selectbox_def find_pid_def
        ada_def)

lemma edit_mode_on_desk:
  assumes "nav_radio inp = Some 1" "action_radio inp = Some 1" "patient_select inp = None"
    "search_input inp = []" "\<not> logout_button inp"
  shows "app inp desk =
     (Inr (), desk\<lparr>journal := [SelectPatients, SelectPatientLabels,
                                SelectPatientById (NumpyInt64 1)],
                    screen := [Title (str ''MedCare Hospital '' @ [8594] @ str '' '' @
                                        str ''Patients (full CRUD)''),
                               Dataframe (PatientFrame [ada])]\<rparr>)"
proof -
  define w0 where "w0 = render (Title (str ''MedCare Hospital '' @ [8594] @ str '' '' @
                                         str ''Patients (full CRUD)''))
                          (desk\<lparr>journal := [], screen := []\<rparr>)"
  define w1 where "w1 = patients_list_tab inp w0"
  have w1: "w1 = desk\<lparr>journal := [SelectPatients],
                       screen := [Title (str ''MedCare Hospital '' @ [8594] @ str '' '' @
                                           str ''Patients (full CRUD)''),
                                  Dataframe (PatientFrame [ada])]\<rparr>"
    unfolding w1_def w0_def using assms(4)
    by (simp add: patients_list_tab_def list_query_def run_query_fetch render_def desk_def
          ward_def)
  have st: "store w1 = ward"
    unfolding w1 by (simp add: desk_def)
  have mode: "selectbox action_options 0 (action_radio inp) \<noteq> str ''Add New''"
    using assms(2) by (simp add: selectbox_def action_options_def str_def)
  have "app inp desk = patients_manage_tab inp w1"
    unfolding w1_def w0_def
    by (rule app_patients) (simp_all add: assms logged_in_def desk_def)
  also have "\<dots> = edit_delete inp w1"
    using mode by (simp add: patients_manage_tab_def)
  also have "\<dots> = (Inr (), w1\<lparr>journal := journal w1 @
                         [SelectPatientLabels, SelectPatientById (NumpyInt64 1)]\<rparr>)"
    by (rule edit_delete_on_ward[OF st assms(3)])
  finally show ?thesis
    unfolding w1 by simp
qed

text \<open>
  Claim C1 asks that a confirmed delete removes the row and that a later fetch by its id
  finds nothing. The script has the button, the checkbox and the \<open>DELETE\<close>, and never
  gets to remove a row.
  \<^item> Whatever the inputs, a run sends no \<open>DELETE\<close> and no \<open>UPDATE\<close>, and the patients
    table after the run starts with the table before it, row for row.
  \<^item> With Ada Byron alone in the table and the action at \<open>Edit / Delete\<close>, the run
    selects the labels, selects the row of the chosen id, gets no row back, and draws no
    form: the id of line 206 is a \<open>numpy.int64\<close> and is bound as a \<open>BLOB\<close>. Delete
    clicked and checkbox ticked make no difference, and Ada is still fetched by her id.
  \<^item> Were the form drawn: the checkbox is created under the button, so the handler
    gets \<open>False\<close> and does nothing; and were it \<open>True\<close>, the \<open>DELETE\<close> bound to that
    id would leave the table as it is.
\<close>

theorem delete_never_fires:
  "(\<forall>v. DeletePatient v \<notin> set (journal (snd (app inp w)))) \<and>
   (\<forall>f l p g b v. UpdatePatient f l p g b v \<notin> set (journal (snd (app inp w)))) \<and>
   prefix (patients (store w)) (patients (store (snd (app inp w)))) \<and>
   app (idle\<lparr>nav_radio := Some 1, action_radio := Some 1\<rparr>) desk =
     (Inr (), desk\<lparr>journal := [SelectPatients, SelectPatientLabels,
                                SelectPatientById (NumpyInt64 1)],
                    screen := [Title (str ''MedCare Hospital '' @ [8594] @ str '' '' @
                                        str ''Patients (full CRUD)''),
                               Dataframe (PatientFrame [ada])]\<rparr>) \<and>
   app (idle\<lparr>nav_radio := Some 1, action_radio := Some 1, delete_button := True,
              confirm_checkbox := True\<rparr>) desk =
     app (idle\<lparr>nav_radio := Some 1, action_radio := Some 1\<rparr>) desk \<and>
   fst (run_query (SelectPatientById (PyInt 1)) True False
          (snd (app (idle\<lparr>nav_radio := Some 1, action_radio := Some 1, delete_button := True,
                          confirm_checkbox := True\<rparr>) desk))) = Some (PatientFrame [ada]) \<and>
   delete_patient (checkbox_under_button ticked) pid w = (Inr (), w) \<and>
   patients (store (snd (delete_patient True (NumpyInt64 n) w))) = patients (store w)"
proof -
  have no_delete: "\<forall>v. DeletePatient v \<notin> set (journal (snd (app inp w)))"
    using app_journal[of inp w] by auto
  have no_update: "\<forall>f l p g b v. UpdatePatient f l p g b v \<notin> set (journal (snd (app inp w)))"
    using app_journal[of inp w] by auto
  let ?view = "idle\<lparr>nav_radio := Some 1, action_radio := Some 1\<rparr>"
  let ?click = "idle\<lparr>nav_radio := Some 1, action_radio := Some 1, delete_button := True,
                     confirm_checkbox := True\<rparr>"
  have view: "app ?view desk =
     (Inr (), desk\<lparr>journal := [SelectPatients, SelectPatientLabels,
                                SelectPatientById (NumpyInt64 1)],
                    screen := [Title (str ''MedCare Hospital '' @ [8594] @ str '' '' @
                                        str ''Patients (full CRUD)''),
                               Dataframe (PatientFrame [ada])]\<rparr>)"
    by (rule edit_mode_on_desk) (simp_all add: idle_def)
  have click: "app ?click desk =
     (Inr (), desk\<lparr>journal := [SelectPatients, SelectPatientLabels,
                                SelectPatientById (NumpyInt64 1)],
                    screen := [Title (str ''MedCare Hospital '' @ [8594] @ str '' '' @
                                        str ''Patients (full CRUD)''),
                               Dataframe (PatientFrame [ada])]\<rparr>)"
    by (rule edit_mode_on_desk) (simp_all add: idle_def)
  have same: "app ?click desk = app ?view desk"
    unfolding view click ..
  have still: "fst (run_query (SelectPatientById (PyInt 1)) True False (snd (app ?click desk)))
      = Some (PatientFrame [ada])"
    unfolding click by (simp add: run_query_fetch desk_def ward_def ada_def)
  have unticked: "delete_patient (checkbox_under_button ticked) pid w = (Inr (), w)"
    by (simp add: delete_patient_def checkbox_under_button_def)
  have blob: "patients (store (snd (delete_patient True (NumpyInt64 n) w))) = patients (store w)"
    by (simp add: delete_by_numpy_id render_def)
  show ?thesis
    by (rule conjI[OF no_delete conjI[OF no_update conjI[OF app_rows_stay
          conjI[OF view conjI[OF same conjI[OF still conjI[OF unticked blob]]]]]]])
qed

end
